theory Spec2Isabelle
  imports Main
begin

unbundle bit_operations_syntax

section \<open>The cloud API client of k6 (stats/cloud/client.go)\<close>

text \<open>
  The file holds one small HTTP client: \<open>NewClient\<close> resolves the host and builds the
  client, \<open>NewRequest\<close> builds a request with an optional JSON body, \<open>Do\<close> sets three
  headers, performs the call, classifies the response with \<open>checkResponse\<close> and decodes
  the body. Everything the Go code reaches outside the file (the environment, the HTTP
  transport, the response body stream, the logger) is made explicit here: the
  environment and the transport are arguments, and the calls on the body and on the
  logger are recorded in a list of events, in the order in which they happen.
\<close>

subsection \<open>Errors, requests and responses\<close>

text \<open>
  A request is one that \<open>http.NewRequest\<close> has built: its header map is allocated, and
  the keys of the map are in the canonical form in which \<open>Header.Set\<close> stores them. Its
  body, when it has one, is the bytes to send.

  A response body is an \<open>io.ReadCloser\<close>: an interface value, known here by a handle.
  What reading and closing it does is given by the \<open>world\<close> below. A response is
  handled through a pointer in Go; here it is the value (status code and body handle),
  so "the same response" is equality of that value. The client and the request, pointers
  in Go as well, are never nil.
\<close>

type_synonym ReadCloser = nat

record Request =
  Method :: string
  URL :: string
  Header :: "string \<rightharpoonup> string list"
  Body :: "string option"

record Response =
  StatusCode :: int
  Body :: ReadCloser

text \<open>
  Modelled from the spec: the type \<open>ErrorResponse\<close> is declared in another file of
  the package. The spec gives it as "underlying HTTP response reference, message:
  string, code: integer"; the field names are those \<open>checkResponse\<close> fills in.
\<close>

record ErrorResponse =
  Response :: Response
  Message :: string
  Code :: int

text \<open>
  Modelled from the spec: the variables \<open>ErrNotAuthenticated\<close> and \<open>ErrNotAuthorized\<close>
  are declared in another file of the package. The spec gives them as the sentinel
  errors NotAuthenticated (HTTP 401) and NotAuthorized (HTTP 403), "identity-comparable
  error kinds"; each is a constructor of its own here.

  The other constructors are the rest of Go's \<open>error\<close> values that can flow through this
  file: a pointer to an \<open>ErrorResponse\<close>; \<open>Wrapped e msg\<close>, which is what
  \<open>errors.Wrap(e, msg)\<close> of github.com/pkg/errors returns for a non-nil \<open>e\<close>; \<open>EOF\<close>
  and \<open>ErrUnexpectedEOF\<close>, the two variables of package io; the three error types of
  encoding/json, a type error holding the description of the JSON value that did not
  fit; and \<open>OtherError\<close> for any other error (a transport failure, a marshalling
  failure, a failed read or close). \<open>Cause\<close> is \<open>errors.Cause\<close> of the same package: it
  unwraps as long as there is a wrapper.
\<close>

datatype error =
    ErrNotAuthenticated
  | ErrNotAuthorized
  | ErrorResponseError ErrorResponse
  | Wrapped error string
  | EOF
  | ErrUnexpectedEOF
  | SyntaxError string
  | UnmarshalTypeError string
  | InvalidUnmarshalError
  | OtherError string

definition errors_Wrap :: "error \<Rightarrow> string \<Rightarrow> error" where
  "errors_Wrap err message = Wrapped err message"

fun Cause :: "error \<Rightarrow> error" where
  "Cause (Wrapped err message) = Cause err"
| "Cause ErrNotAuthenticated = ErrNotAuthenticated"
| "Cause ErrNotAuthorized = ErrNotAuthorized"
| "Cause (ErrorResponseError e) = ErrorResponseError e"
| "Cause EOF = EOF"
| "Cause ErrUnexpectedEOF = ErrUnexpectedEOF"
| "Cause (SyntaxError s) = SyntaxError s"
| "Cause (UnmarshalTypeError s) = UnmarshalTypeError s"
| "Cause InvalidUnmarshalError = InvalidUnmarshalError"
| "Cause (OtherError s) = OtherError s"

subsection \<open>The client and its construction\<close>

text \<open>\<open>TIMEOUT = 10 * time.Second\<close>; a \<open>time.Duration\<close> counts nanoseconds.\<close>

definition TIMEOUT :: int where
  "TIMEOUT = 10 * 1000000000"

record http_Client =
  Timeout :: int

record Client =
  client :: http_Client
  token :: string
  baseURL :: string
  version :: string

text \<open>
  \<open>NewClient(token, host, version)\<close>. The first argument is \<open>os.Getenv\<close>, which gives
  the empty string for a variable that is not set.
\<close>

definition NewClient :: "(string \<Rightarrow> string) \<Rightarrow> string \<Rightarrow> string \<Rightarrow> string \<Rightarrow> Client" where
  "NewClient os_Getenv token' host version' =
     (let client' = \<lparr>Timeout = TIMEOUT\<rparr>;
          hostEnv = os_Getenv ''K6CLOUD_HOST'';
          host = (if hostEnv \<noteq> '''' then hostEnv else host);
          host = (if host = '''' then ''https://ingest.loadimpact.com'' else host);
          baseURL' = host @ ''/v1''
      in \<lparr>client = client', token = token', baseURL = baseURL', version = version'\<rparr>)"

subsection \<open>Building a request\<close>

text \<open>
  \<open>http.NewRequest(method, url, body)\<close> of net/http. It refuses a method that is not a
  token and a URL that does not parse; that check is the argument \<open>validate\<close>. An empty
  method means GET, the header map is allocated empty, and a nil reader gives a nil body.
\<close>

definition http_NewRequest ::
  "(string \<Rightarrow> string \<Rightarrow> error option) \<Rightarrow> string \<Rightarrow> string \<Rightarrow> string option \<Rightarrow> error + Request" where
  "http_NewRequest validate method url body =
     (case validate method url of
        Some err \<Rightarrow> Inl err
      | None \<Rightarrow>
          Inr \<lparr>Method = (if method = '''' then ''GET'' else method), URL = url,
               Header = Map.empty, Body = body\<rparr>)"

text \<open>
  \<open>(c *Client) NewRequest(method, url, data)\<close>. \<open>data\<close> is an \<open>interface{}\<close>: \<open>None\<close> is
  nil. \<open>json.Marshal\<close> for the type of \<open>data\<close> is the argument \<open>json_Marshal\<close>; it gives
  the bytes or an error.
\<close>

definition NewRequest ::
  "(string \<Rightarrow> string \<Rightarrow> error option) \<Rightarrow> ('d \<Rightarrow> error + string) \<Rightarrow>
     Client \<Rightarrow> string \<Rightarrow> string \<Rightarrow> 'd option \<Rightarrow> error + Request" where
  "NewRequest validate json_Marshal c method url data =
     (case data of
        None \<Rightarrow> http_NewRequest validate method url None
      | Some d \<Rightarrow>
          (case json_Marshal d of
             Inl err \<Rightarrow> Inl err
           | Inr b \<Rightarrow> http_NewRequest validate method url (Some b)))"

subsection \<open>JSON values and decoding into the error struct (encoding/json)\<close>

text \<open>
  A JSON value as the decoder sees it: a number keeps its literal, a string is the
  unquoted bytes, an object keeps its members in the order of the document, duplicates
  included.
\<close>

datatype json =
    JNull
  | JBool bool
  | JNumber string
  | JString string
  | JArray "json list"
  | JObject "(string \<times> json) list"

text \<open>
  The struct \<open>checkResponse\<close> decodes into:
  \<^verbatim>\<open>struct { ErrorData struct { Message string `json:"message"`; Code int `json:"code"` } `json:"error"` }\<close>
\<close>

record ErrorData =
  Message :: string
  Code :: int

record errorStruct =
  ErrorData :: ErrorData

text \<open>
  The decoder keeps the first type error it meets (\<open>d.saveError\<close>), goes on decoding,
  and returns that error at the end.
\<close>

definition saveError :: "error \<Rightarrow> error option \<Rightarrow> error option" where
  "saveError err savedError = (if savedError = None then Some err else savedError)"

text \<open>
  Matching an object key against a struct field: the bytes of the key equal the field's
  name, or else they equal it under the case folding that \<open>foldFunc\<close> picks for the
  name. For \<open>error\<close> and \<open>code\<close> (letters only, none of them k or s) that is
  \<open>simpleLetterEqualFold\<close>; for \<open>message\<close> (it has an s) it is \<open>equalFoldRight\<close>, under
  which the key may also spell an s as U+017F and a k as U+212A, in UTF-8.
\<close>

definition caseMask :: nat where
  "caseMask = 0xDF"

definition RuneSelf :: nat where
  "RuneSelf = 0x80"

definition smallLongEss :: string where
  "smallLongEss = [CHR 0xC5, CHR 0xBF]"

definition kelvin :: string where
  "kelvin = [CHR 0xE2, CHR 0x84, CHR 0xAA]"

fun simpleLetterEqualFold :: "string \<Rightarrow> string \<Rightarrow> bool" where
  "simpleLetterEqualFold [] [] = True"
| "simpleLetterEqualFold (b # s) (tb # t) =
     ((of_char b :: nat) AND caseMask = (of_char tb :: nat) AND caseMask \<and>
      simpleLetterEqualFold s t)"
| "simpleLetterEqualFold _ _ = False"

fun equalFoldRight :: "string \<Rightarrow> string \<Rightarrow> bool" where
  "equalFoldRight [] t = (t = [])"
| "equalFoldRight (sb # s) [] = False"
| "equalFoldRight (sb # s) (tb # t) =
     (if (of_char tb :: nat) < RuneSelf then
        (sb = tb \<or>
         (let sbUpper = (of_char sb :: nat) AND caseMask
          in 65 \<le> sbUpper \<and> sbUpper \<le> 90 \<and> sbUpper = (of_char tb :: nat) AND caseMask)) \<and>
        equalFoldRight s t
      else if sb = CHR ''s'' \<or> sb = CHR ''S'' then
        take 2 (tb # t) = smallLongEss \<and> equalFoldRight s (drop 2 (tb # t))
      else if sb = CHR ''k'' \<or> sb = CHR ''K'' then
        take 3 (tb # t) = kelvin \<and> equalFoldRight s (drop 3 (tb # t))
      else False)"

text \<open>
  The loop of \<open>(d *decodeState) object\<close> over the fields of the struct: an exact match
  ends the search, otherwise the first field that matches under folding is taken. A
  field is its name with its folding function; the result is the name of the field
  found.
\<close>

fun findField ::
  "(string \<times> (string \<Rightarrow> string \<Rightarrow> bool)) list \<Rightarrow> string \<Rightarrow> string option \<Rightarrow> string option" where
  "findField [] key f = f"
| "findField ((name, equalFold) # fs) key f =
     (if name = key then Some name
      else findField fs key (if f = None \<and> equalFold name key then Some name else f))"

definition fields_ErrorData :: "(string \<times> (string \<Rightarrow> string \<Rightarrow> bool)) list" where
  "fields_ErrorData = [(''message'', equalFoldRight), (''code'', simpleLetterEqualFold)]"

definition fields_errorStruct :: "(string \<times> (string \<Rightarrow> string \<Rightarrow> bool)) list" where
  "fields_errorStruct = [(''error'', simpleLetterEqualFold)]"

text \<open>
  \<open>strconv.ParseInt(s, 10, 64)\<close>: an optional sign, then at least one digit and nothing
  but digits, and the value within the 64-bit signed range. Go's \<open>int\<close> is taken as
  64 bits wide.
\<close>

definition digit :: "char \<Rightarrow> nat option" where
  "digit c = (let n = (of_char c :: nat) in if 48 \<le> n \<and> n \<le> 57 then Some (n - 48) else None)"

fun ParseUint :: "string \<Rightarrow> nat \<Rightarrow> nat option" where
  "ParseUint [] n = Some n"
| "ParseUint (c # s) n = (case digit c of None \<Rightarrow> None | Some d \<Rightarrow> ParseUint s (n * 10 + d))"

definition ParseInt :: "string \<Rightarrow> int option" where
  "ParseInt s0 =
     (let neg = (s0 \<noteq> [] \<and> hd s0 = CHR ''-'');
          s = (if s0 \<noteq> [] \<and> (hd s0 = CHR ''+'' \<or> hd s0 = CHR ''-'') then tl s0 else s0)
      in if s = [] then None
         else (case ParseUint s 0 of
                 None \<Rightarrow> None
               | Some un \<Rightarrow>
                   if \<not> neg \<and> un \<ge> 2 ^ 63 then None
                   else if neg \<and> un > 2 ^ 63 then None
                   else Some (if neg then - int un else int un)))"

text \<open>
  Storing a JSON value into a Go value of a given kind. The state is the saved error
  and the Go value so far. \<open>null\<close> leaves a string, an int and a struct as they are; a
  value of the wrong kind is skipped and reported as an \<open>UnmarshalTypeError\<close> that
  names what the JSON held.
\<close>

fun store_string :: "json \<Rightarrow> error option \<times> string \<Rightarrow> error option \<times> string" where
  "store_string JNull (savedError, v) = (savedError, v)"
| "store_string (JString s) (savedError, v) = (savedError, s)"
| "store_string (JBool b) (savedError, v) = (saveError (UnmarshalTypeError ''bool'') savedError, v)"
| "store_string (JNumber s) (savedError, v) =
     (saveError (UnmarshalTypeError ''number'') savedError, v)"
| "store_string (JArray xs) (savedError, v) =
     (saveError (UnmarshalTypeError ''array'') savedError, v)"
| "store_string (JObject ms) (savedError, v) =
     (saveError (UnmarshalTypeError ''object'') savedError, v)"

fun store_int :: "json \<Rightarrow> error option \<times> int \<Rightarrow> error option \<times> int" where
  "store_int JNull (savedError, v) = (savedError, v)"
| "store_int (JNumber s) (savedError, v) =
     (case ParseInt s of
        Some n \<Rightarrow> (savedError, n)
      | None \<Rightarrow> (saveError (UnmarshalTypeError (''number '' @ s)) savedError, v))"
| "store_int (JString s) (savedError, v) =
     (saveError (UnmarshalTypeError ''string'') savedError, v)"
| "store_int (JBool b) (savedError, v) = (saveError (UnmarshalTypeError ''bool'') savedError, v)"
| "store_int (JArray xs) (savedError, v) = (saveError (UnmarshalTypeError ''array'') savedError, v)"
| "store_int (JObject ms) (savedError, v) =
     (saveError (UnmarshalTypeError ''object'') savedError, v)"

text \<open>
  An object decoded into the inner struct: the members in order, each stored into the
  field its key finds, or skipped when it finds none.
\<close>

fun object_ErrorData ::
  "(string \<times> json) list \<Rightarrow> error option \<times> ErrorData \<Rightarrow> error option \<times> ErrorData" where
  "object_ErrorData [] st = st"
| "object_ErrorData ((key, val) # ms) (savedError, v) =
     object_ErrorData ms
       (let f = findField fields_ErrorData key None in
        if f = Some ''message'' then
          (let (savedError', s) = store_string val (savedError, ErrorData.Message v)
           in (savedError', v\<lparr>ErrorData.Message := s\<rparr>))
        else if f = Some ''code'' then
          (let (savedError', n) = store_int val (savedError, ErrorData.Code v)
           in (savedError', v\<lparr>ErrorData.Code := n\<rparr>))
        else (savedError, v))"

fun store_ErrorData :: "json \<Rightarrow> error option \<times> ErrorData \<Rightarrow> error option \<times> ErrorData" where
  "store_ErrorData JNull (savedError, v) = (savedError, v)"
| "store_ErrorData (JObject ms) (savedError, v) = object_ErrorData ms (savedError, v)"
| "store_ErrorData (JArray xs) (savedError, v) =
     (saveError (UnmarshalTypeError ''array'') savedError, v)"
| "store_ErrorData (JString s) (savedError, v) =
     (saveError (UnmarshalTypeError ''string'') savedError, v)"
| "store_ErrorData (JNumber s) (savedError, v) =
     (saveError (UnmarshalTypeError ''number'') savedError, v)"
| "store_ErrorData (JBool b) (savedError, v) =
     (saveError (UnmarshalTypeError ''bool'') savedError, v)"

fun object_errorStruct ::
  "(string \<times> json) list \<Rightarrow> error option \<times> errorStruct \<Rightarrow> error option \<times> errorStruct" where
  "object_errorStruct [] st = st"
| "object_errorStruct ((key, val) # ms) (savedError, v) =
     object_errorStruct ms
       (if findField fields_errorStruct key None = Some ''error'' then
          (let (savedError', e) = store_ErrorData val (savedError, ErrorData v)
           in (savedError', v\<lparr>ErrorData := e\<rparr>))
        else (savedError, v))"

fun store_errorStruct ::
  "json \<Rightarrow> error option \<times> errorStruct \<Rightarrow> error option \<times> errorStruct" where
  "store_errorStruct JNull (savedError, v) = (savedError, v)"
| "store_errorStruct (JObject ms) (savedError, v) = object_errorStruct ms (savedError, v)"
| "store_errorStruct (JArray xs) (savedError, v) =
     (saveError (UnmarshalTypeError ''array'') savedError, v)"
| "store_errorStruct (JString s) (savedError, v) =
     (saveError (UnmarshalTypeError ''string'') savedError, v)"
| "store_errorStruct (JNumber s) (savedError, v) =
     (saveError (UnmarshalTypeError ''number'') savedError, v)"
| "store_errorStruct (JBool b) (savedError, v) =
     (saveError (UnmarshalTypeError ''bool'') savedError, v)"

text \<open>\<open>(d *decodeState) unmarshal\<close> on a pointer to the struct: the saved error, if any.\<close>

definition unmarshal_errorStruct :: "json \<Rightarrow> errorStruct \<Rightarrow> error option \<times> errorStruct" where
  "unmarshal_errorStruct j v = store_errorStruct j (None, v)"

subsection \<open>The world outside the file\<close>

text \<open>
  \<open>client_Do\<close> is \<open>(*http.Client).Do\<close>: it gives a response, or an error (a failed
  connection, a timeout after \<open>Timeout\<close>). \<open>readValue\<close> is what a fresh
  \<open>json.Decoder\<close> finds when it reads the next value from a body: a complete JSON value
  (whatever follows it is left unread), or an error. The errors are \<open>EOF\<close> when the body
  ends before any byte other than white space, \<open>ErrUnexpectedEOF\<close> when it ends inside
  a value, a \<open>SyntaxError\<close> when the bytes are not JSON, or the error of a failed read.
  \<open>Close\<close> is the body's \<open>Close\<close> method.
\<close>

record world =
  client_Do :: "http_Client \<Rightarrow> Request \<Rightarrow> error + Response"
  readValue :: "ReadCloser \<Rightarrow> error + json"
  Close :: "ReadCloser \<Rightarrow> error option"

text \<open>
  What a call does to the world, in order: the request handed to the transport, a
  decode of a body (into the error struct of \<open>checkResponse\<close>, or into the caller's
  target), the close of a body, a line written to the log.
\<close>

datatype event =
    RoundTrip Request
  | DecodeErrorStruct ReadCloser
  | DecodeTarget ReadCloser
  | CloseBody ReadCloser
  | LogError error

text \<open>
  \<open>json.NewDecoder(body).Decode(v)\<close>: the next value is read first and an error there
  returns before \<open>v\<close> is looked at; then the value is unmarshalled into \<open>v\<close>. The
  unmarshalling for the type of \<open>v\<close> is the argument \<open>unmarshal\<close>: it gives the error, if
  any, and \<open>v\<close> as it is afterwards.
\<close>

definition Decode ::
  "world \<Rightarrow> (json \<Rightarrow> 'v \<Rightarrow> error option \<times> 'v) \<Rightarrow> ReadCloser \<Rightarrow> 'v \<Rightarrow> error option \<times> 'v" where
  "Decode w unmarshal body v =
     (case readValue w body of
        Inl err \<Rightarrow> (Some err, v)
      | Inr j \<Rightarrow> unmarshal j v)"

subsection \<open>Classifying a response\<close>

text \<open>\<open>checkResponse(r)\<close>: the error returned (\<open>None\<close> is nil) and the events of the call.\<close>

definition checkResponse :: "world \<Rightarrow> Response \<Rightarrow> error option \<times> event list" where
  "checkResponse w r =
     (let c = StatusCode r in
      if c \<ge> 200 \<and> c \<le> 299 then (None, [])
      else if StatusCode r = 401 then (Some ErrNotAuthenticated, [])
      else if StatusCode r = 403 then (Some ErrNotAuthorized, [])
      else
        (let errorStruct = \<lparr>ErrorData = \<lparr>ErrorData.Message = '''', Code = 0\<rparr>\<rparr> in
         case Decode w unmarshal_errorStruct (Body r) errorStruct of
           (Some err, errorStruct') \<Rightarrow>
             (Some (errors_Wrap err ''Non-standard API error response''),
              [DecodeErrorStruct (Body r)])
         | (None, errorStruct') \<Rightarrow>
             (let errorResponse =
                \<lparr>Response = r,
                 Message = ErrorData.Message (ErrorData errorStruct'),
                 Code = ErrorData.Code (ErrorData errorStruct')\<rparr>
              in (Some (ErrorResponseError errorResponse), [DecodeErrorStruct (Body r)]))))"

subsection \<open>Executing a request\<close>

text \<open>
  \<open>Header.Set(key, value)\<close> replaces whatever the map holds under the key by the one
  value. The three keys used below are in canonical form already.
\<close>

definition Header_Set :: "Request \<Rightarrow> string \<Rightarrow> string \<Rightarrow> Request" where
  "Header_Set req key val = req\<lparr>Header := (Header req)(key \<mapsto> [val])\<rparr>"

text \<open>The first three lines of \<open>Do\<close>.\<close>

definition setHeaders :: "Client \<Rightarrow> Request \<Rightarrow> Request" where
  "setHeaders c req =
     (let req = Header_Set req ''Content-Type'' ''application/json'';
          req = Header_Set req ''Authorization'' (''Token '' @ token c);
          req = Header_Set req ''User-Agent'' (''k6cloud/'' @ version c)
      in req)"

text \<open>The deferred function of \<open>Do\<close>: close the body, and log the error if there is one.\<close>

definition deferred :: "world \<Rightarrow> Response \<Rightarrow> event list" where
  "deferred w resp =
     (case Close w (Body resp) of
        None \<Rightarrow> [CloseBody (Body resp)]
      | Some err \<Rightarrow> [CloseBody (Body resp), LogError err])"

text \<open>
  What a call of \<open>Do\<close> leaves behind: the error returned (\<open>None\<close> is nil), the caller's
  target \<open>v\<close> as it is after the call, the request as it is after the call (it is
  changed in place), and the events in order.
\<close>

record 'v outcome =
  returned :: "error option"
  target :: "'v option"
  request :: Request
  trace :: "event list"

text \<open>
  \<open>(c *Client) Do(req, v)\<close>. \<open>v\<close> is an \<open>interface{}\<close>: \<open>None\<close> is nil, \<open>Some t\<close> a
  target holding \<open>t\<close>. The deferred function runs last on every path after the response
  has arrived, and cannot change the value returned.
\<close>

definition Do ::
  "world \<Rightarrow> (json \<Rightarrow> 'v \<Rightarrow> error option \<times> 'v) \<Rightarrow> Client \<Rightarrow> Request \<Rightarrow> 'v option \<Rightarrow> 'v outcome" where
  "Do w unmarshal c req v =
     (let req = setHeaders c req in
      case client_Do w (client c) req of
        Inl err \<Rightarrow>
          \<lparr>returned = Some err, target = v, request = req, trace = [RoundTrip req]\<rparr>
      | Inr resp \<Rightarrow>
          (case checkResponse w resp of
             (Some err, evs) \<Rightarrow>
               \<lparr>returned = Some err, target = v, request = req,
                trace = RoundTrip req # evs @ deferred w resp\<rparr>
           | (None, evs) \<Rightarrow>
               (case v of
                  None \<Rightarrow>
                    \<lparr>returned = None, target = v, request = req,
                     trace = RoundTrip req # evs @ deferred w resp\<rparr>
                | Some t \<Rightarrow>
                    (let (err, t') = Decode w unmarshal (Body resp) t;
                         err = (if err = Some EOF then None else err)
                     in \<lparr>returned = err, target = Some t', request = req,
                         trace = RoundTrip req # evs @ [DecodeTarget (Body resp)] @
                                 deferred w resp\<rparr>))))"

subsection \<open>Sample inputs\<close>

text \<open>
  Decoding into a Go string, as \<open>Decode\<close> does for a target of type \<open>*string\<close>; a
  client, a request that already carries two headers, and a world given by what the
  transport answers, what the body holds and what closing it returns. The theorems are
  evaluated on these below.
\<close>

definition unmarshal_string :: "json \<Rightarrow> string \<Rightarrow> error option \<times> string" where
  "unmarshal_string j v = store_string j (None, v)"

definition sample_client :: Client where
  "sample_client = NewClient (\<lambda>k. '''') ''secret'' '''' ''0.17.0''"

definition sample_request :: Request where
  "sample_request =
     \<lparr>Method = ''POST'', URL = ''https://ingest.loadimpact.com/v1/tests'',
      Header = [''Content-Type'' \<mapsto> [''text/plain''], ''Accept'' \<mapsto> [''*/*'']],
      Body = Some ''{}''\<rparr>"

definition sample_world :: "error + Response \<Rightarrow> error + json \<Rightarrow> error option \<Rightarrow> world" where
  "sample_world answer content closing =
     \<lparr>client_Do = (\<lambda>hc req. answer), readValue = (\<lambda>b. content), Close = (\<lambda>b. closing)\<rparr>"

section \<open>Lemmas about the model\<close>

subsection \<open>The branches of \<open>checkResponse\<close> and of \<open>Do\<close>\<close>

lemma checkResponse_success:
  "200 \<le> StatusCode r \<Longrightarrow> StatusCode r \<le> 299 \<Longrightarrow> checkResponse w r = (None, [])"
  by (simp add: checkResponse_def)

lemma checkResponse_401: "StatusCode r = 401 \<Longrightarrow> checkResponse w r = (Some ErrNotAuthenticated, [])"
  by (simp add: checkResponse_def)

lemma checkResponse_403: "StatusCode r = 403 \<Longrightarrow> checkResponse w r = (Some ErrNotAuthorized, [])"
  by (simp add: checkResponse_def)

lemma checkResponse_other:
  assumes "\<not> (200 \<le> StatusCode r \<and> StatusCode r \<le> 299)" "StatusCode r \<noteq> 401" "StatusCode r \<noteq> 403"
  shows "checkResponse w r =
     (case Decode w unmarshal_errorStruct (Body r) \<lparr>ErrorData = \<lparr>ErrorData.Message = '''', Code = 0\<rparr>\<rparr> of
        (Some err, es) \<Rightarrow> (Some (Wrapped err ''Non-standard API error response''), [DecodeErrorStruct (Body r)])
      | (None, es) \<Rightarrow>
          (Some (ErrorResponseError \<lparr>Response = r, Message = ErrorData.Message (ErrorData es),
                                     Code = ErrorData.Code (ErrorData es)\<rparr>), [DecodeErrorStruct (Body r)]))"
  using assms by (simp add: checkResponse_def errors_Wrap_def Let_def split: prod.splits option.splits)

lemma checkResponse_events:
  "set (snd (checkResponse w r)) \<subseteq> {DecodeErrorStruct (Body r)}"
  by (auto simp: checkResponse_def Let_def split: prod.splits option.splits)

lemma checkResponse_None:
  "fst (checkResponse w r) = None \<Longrightarrow> checkResponse w r = (None, [])"
  by (auto simp: checkResponse_def Let_def split: prod.splits option.splits if_splits)

lemma checkResponse_errors:
  "fst (checkResponse w r) = Some err \<Longrightarrow>
   err = ErrNotAuthenticated \<or> err = ErrNotAuthorized \<or> (\<exists>e. err = ErrorResponseError e) \<or>
   (\<exists>e. err = Wrapped e ''Non-standard API error response'')"
  by (auto simp: checkResponse_def errors_Wrap_def Let_def split: if_splits prod.splits option.splits)

lemma Do_transport_error:
  "client_Do w (client c) (setHeaders c req) = Inl err \<Longrightarrow>
   Do w unmarshal c req v =
     \<lparr>returned = Some err, target = v, request = setHeaders c req,
      trace = [RoundTrip (setHeaders c req)]\<rparr>"
  by (simp add: Do_def Let_def)

lemma Do_classified_error:
  "client_Do w (client c) (setHeaders c req) = Inr resp \<Longrightarrow>
   checkResponse w resp = (Some err, evs) \<Longrightarrow>
   Do w unmarshal c req v =
     \<lparr>returned = Some err, target = v, request = setHeaders c req,
      trace = RoundTrip (setHeaders c req) # evs @ deferred w resp\<rparr>"
  by (simp add: Do_def Let_def)

lemma Do_success_nil:
  "client_Do w (client c) (setHeaders c req) = Inr resp \<Longrightarrow>
   checkResponse w resp = (None, evs) \<Longrightarrow>
   Do w unmarshal c req None =
     \<lparr>returned = None, target = None, request = setHeaders c req,
      trace = RoundTrip (setHeaders c req) # evs @ deferred w resp\<rparr>"
  by (simp add: Do_def Let_def)

lemma Do_success_decode:
  "client_Do w (client c) (setHeaders c req) = Inr resp \<Longrightarrow>
   checkResponse w resp = (None, evs) \<Longrightarrow>
   Do w unmarshal c req (Some t) =
     \<lparr>returned = (if fst (Decode w unmarshal (Body resp) t) = Some EOF then None
                  else fst (Decode w unmarshal (Body resp) t)),
      target = Some (snd (Decode w unmarshal (Body resp) t)), request = setHeaders c req,
      trace = RoundTrip (setHeaders c req) # evs @ [DecodeTarget (Body resp)] @ deferred w resp\<rparr>"
  by (simp add: Do_def Let_def split: prod.splits)

lemma deferred_cases:
  "deferred w resp = [CloseBody (Body resp)] \<or>
   (\<exists>err. Close w (Body resp) = Some err \<and> deferred w resp = [CloseBody (Body resp), LogError err])"
  by (simp add: deferred_def split: option.splits)

lemma deferred_events:
  "set (deferred w resp) \<subseteq> {CloseBody (Body resp)} \<union> range LogError"
  using deferred_cases [of w resp] by auto

lemma Do_trace:
  "trace (Do w unmarshal c req v) =
     RoundTrip (setHeaders c req) #
     (case client_Do w (client c) (setHeaders c req) of
        Inl err \<Rightarrow> []
      | Inr resp \<Rightarrow>
          snd (checkResponse w resp) @
          (if fst (checkResponse w resp) = None \<and> v \<noteq> None
           then [DecodeTarget (Body resp)] else []) @
          deferred w resp)"
proof (cases "client_Do w (client c) (setHeaders c req)")
  case (Inl err)
  then show ?thesis by (simp add: Do_transport_error)
next
  case (Inr resp)
  obtain e evs where cr: "checkResponse w resp = (e, evs)"
    by (cases "checkResponse w resp")
  show ?thesis
  proof (cases e)
    case (Some err)
    then show ?thesis using Inr cr by (simp add: Do_classified_error)
  next
    case None
    show ?thesis
    proof (cases v)
      case N: None
      show ?thesis using Inr cr None N Do_success_nil [of w c req resp evs unmarshal] by simp
    next
      case (Some t)
      then show ?thesis using Inr cr None  Do_success_decode [of w c req resp evs unmarshal t] by simp
    qed
  qed
qed

lemma Do_trace_response:
  assumes "client_Do w (client c) (setHeaders c req) = Inr r"
  shows "trace (Do w unmarshal c req v) =
     (RoundTrip (setHeaders c req) # snd (checkResponse w r) @
      (if fst (checkResponse w r) = None \<and> v \<noteq> None then [DecodeTarget (Body r)] else [])) @
     deferred w r"
  using assms by (simp add: Do_trace)

lemma Do_trace_tail:
  "\<exists>evs. trace (Do w unmarshal c req v) = RoundTrip (setHeaders c req) # evs \<and>
          (\<forall>r. RoundTrip r \<notin> set evs)"
proof (cases "client_Do w (client c) (setHeaders c req)")
  case (Inl err)
  then show ?thesis by (simp add: Do_trace)
next
  case (Inr resp)
  have "\<forall>r. RoundTrip r \<notin> set (snd (checkResponse w resp))"
    using checkResponse_events [of w resp] by auto
  moreover have "\<forall>r. RoundTrip r \<notin> set (deferred w resp)"
    using deferred_events [of w resp] by auto
  ultimately show ?thesis
    using Inr by (simp add: Do_trace)
qed

lemma Do_returned:
  "returned (Do w unmarshal c req v) =
     (case client_Do w (client c) (setHeaders c req) of
        Inl err \<Rightarrow> Some err
      | Inr resp \<Rightarrow>
          (case fst (checkResponse w resp) of
             Some err \<Rightarrow> Some err
           | None \<Rightarrow>
               (case v of
                  None \<Rightarrow> None
                | Some t \<Rightarrow>
                    if fst (Decode w unmarshal (Body resp) t) = Some EOF then None
                    else fst (Decode w unmarshal (Body resp) t))))"
proof (cases "client_Do w (client c) (setHeaders c req)")
  case (Inl err)
  then show ?thesis by (simp add: Do_transport_error)
next
  case (Inr resp)
  obtain e evs where cr: "checkResponse w resp = (e, evs)"
    by (cases "checkResponse w resp")
  show ?thesis
  proof (cases e)
    case (Some err)
    then show ?thesis using Inr cr by (simp add: Do_classified_error)
  next
    case None
    show ?thesis
    proof (cases v)
      case N: None
      show ?thesis
        using Inr cr None N Do_success_nil [of w c req resp evs unmarshal] by simp
    next
      case (Some t)
      then show ?thesis
        using Inr cr None Do_success_decode [of w c req resp evs unmarshal t] by simp
    qed
  qed
qed

lemma Do_target:
  "target (Do w unmarshal c req v) =
     (case client_Do w (client c) (setHeaders c req) of
        Inl err \<Rightarrow> v
      | Inr resp \<Rightarrow>
          (case fst (checkResponse w resp) of
             Some err \<Rightarrow> v
           | None \<Rightarrow>
               (case v of
                  None \<Rightarrow> None
                | Some t \<Rightarrow> Some (snd (Decode w unmarshal (Body resp) t)))))"
proof (cases "client_Do w (client c) (setHeaders c req)")
  case (Inl err)
  then show ?thesis by (simp add: Do_transport_error)
next
  case (Inr resp)
  obtain e evs where cr: "checkResponse w resp = (e, evs)"
    by (cases "checkResponse w resp")
  show ?thesis
  proof (cases e)
    case (Some err)
    then show ?thesis using Inr cr by (simp add: Do_classified_error)
  next
    case None
    show ?thesis
    proof (cases v)
      case N: None
      show ?thesis
        using Inr cr None N Do_success_nil [of w c req resp evs unmarshal] by simp
    next
      case (Some t)
      then show ?thesis
        using Inr cr None Do_success_decode [of w c req resp evs unmarshal t] by simp
    qed
  qed
qed

lemma Do_request: "request (Do w unmarshal c req v) = setHeaders c req"
  by (simp add: Do_def Let_def split: sum.splits prod.splits option.splits)

subsection \<open>What a call depends on\<close>

lemma Decode_cong_world:
  "readValue w' = readValue w \<Longrightarrow> Decode w' unmarshal b t = Decode w unmarshal b t"
  by (simp add: Decode_def)

lemma checkResponse_cong_world:
  assumes "readValue w' = readValue w"
  shows "checkResponse w' r = checkResponse w r"
proof -
  have d: "\<And>b t. Decode w' unmarshal_errorStruct b t = Decode w unmarshal_errorStruct b t"
    using assms by (rule Decode_cong_world)
  show ?thesis
    unfolding checkResponse_def d ..
qed

lemma deferred_cong_world:
  "Close w' = Close w \<Longrightarrow> deferred w' r = deferred w r"
  by (simp add: deferred_def)

lemma Do_cong_transport:
  assumes "client_Do w' (client c) (setHeaders c req) = client_Do w (client c) (setHeaders c req)"
    and "readValue w' = readValue w" and "Close w' = Close w"
  shows "Do w' unmarshal c req v = Do w unmarshal c req v"
proof -
  have d: "\<And>b t. Decode w' unmarshal b t = Decode w unmarshal b t"
    using assms(2) by (rule Decode_cong_world)
  have k: "\<And>r. checkResponse w' r = checkResponse w r"
    using assms(2) by (rule checkResponse_cong_world)
  have f: "\<And>r. deferred w' r = deferred w r"
    using assms(3) by (rule deferred_cong_world)
  show ?thesis
    unfolding Do_def Let_def assms(1) d k f ..
qed

lemma Do_result_without_Close:
  assumes "client_Do w' = client_Do w" and "readValue w' = readValue w"
  shows "returned (Do w' unmarshal c req v) = returned (Do w unmarshal c req v) \<and>
         target (Do w' unmarshal c req v) = target (Do w unmarshal c req v)"
proof -
  have d: "\<And>b t. Decode w' unmarshal b t = Decode w unmarshal b t"
    using assms(2) by (rule Decode_cong_world)
  have k: "\<And>r. checkResponse w' r = checkResponse w r"
    using assms(2) by (rule checkResponse_cong_world)
  show ?thesis
    unfolding Do_returned Do_target assms(1) d k by simp
qed

subsection \<open>Headers\<close>

lemma setHeaders_Header:
  "Header (setHeaders c req) =
     (Header req)(''Content-Type'' \<mapsto> [''application/json''],
                  ''Authorization'' \<mapsto> [''Token '' @ token c],
                  ''User-Agent'' \<mapsto> [''k6cloud/'' @ version c])"
  by (simp add: setHeaders_def Header_Set_def)

lemma setHeaders_frame:
  "Method (setHeaders c req) = Method req \<and> URL (setHeaders c req) = URL req \<and>
   Request.Body (setHeaders c req) = Request.Body req"
  by (simp add: setHeaders_def Header_Set_def)

subsection \<open>Fields that the payload does not name\<close>

text \<open>
  A member whose key finds no field is skipped, so a field that no key of the object
  finds keeps the value it had.
\<close>

lemma object_ErrorData_Message_absent:
  "\<forall>(k, x) \<in> set ms. findField fields_ErrorData k None \<noteq> Some ''message'' \<Longrightarrow>
   ErrorData.Message (snd (object_ErrorData ms (s, v))) = ErrorData.Message v"
proof (induction ms arbitrary: s v)
  case Nil
  then show ?case by simp
next
  case (Cons m ms)
  obtain k x where m: "m = (k, x)" by (cases m)
  have k: "findField fields_ErrorData k None \<noteq> Some ''message''"
    using Cons.prems m by simp
  have rest: "\<forall>(k, x) \<in> set ms. findField fields_ErrorData k None \<noteq> Some ''message''"
    using Cons.prems by simp
  show ?case
    using k Cons.IH [OF rest] by (simp add: m Let_def split: prod.splits)
qed

lemma object_ErrorData_Code_absent:
  "\<forall>(k, x) \<in> set ms. findField fields_ErrorData k None \<noteq> Some ''code'' \<Longrightarrow>
   ErrorData.Code (snd (object_ErrorData ms (s, v))) = ErrorData.Code v"
proof (induction ms arbitrary: s v)
  case Nil
  then show ?case by simp
next
  case (Cons m ms)
  obtain k x where m: "m = (k, x)" by (cases m)
  have k: "findField fields_ErrorData k None \<noteq> Some ''code''"
    using Cons.prems m by simp
  have rest: "\<forall>(k, x) \<in> set ms. findField fields_ErrorData k None \<noteq> Some ''code''"
    using Cons.prems by simp
  show ?case
    using k Cons.IH [OF rest] by (simp add: m Let_def split: prod.splits)
qed

lemma store_ErrorData_Message_absent:
  "\<forall>inner. x = JObject inner \<longrightarrow>
     (\<forall>(k, y) \<in> set inner. findField fields_ErrorData k None \<noteq> Some ''message'') \<Longrightarrow>
   ErrorData.Message (snd (store_ErrorData x (s, v))) = ErrorData.Message v"
  by (cases x) (simp_all add: object_ErrorData_Message_absent)

lemma store_ErrorData_Code_absent:
  "\<forall>inner. x = JObject inner \<longrightarrow>
     (\<forall>(k, y) \<in> set inner. findField fields_ErrorData k None \<noteq> Some ''code'') \<Longrightarrow>
   ErrorData.Code (snd (store_ErrorData x (s, v))) = ErrorData.Code v"
  by (cases x) (simp_all add: object_ErrorData_Code_absent)

lemma object_errorStruct_Message_absent:
  "\<forall>(k, x) \<in> set ms. findField fields_errorStruct k None = Some ''error'' \<longrightarrow>
     (\<forall>inner. x = JObject inner \<longrightarrow>
        (\<forall>(k', y) \<in> set inner. findField fields_ErrorData k' None \<noteq> Some ''message'')) \<Longrightarrow>
   ErrorData.Message (ErrorData (snd (object_errorStruct ms (s, v)))) =
   ErrorData.Message (ErrorData v)"
proof (induction ms arbitrary: s v)
  case Nil
  then show ?case by simp
next
  case (Cons m ms)
  obtain k x where m: "m = (k, x)" by (cases m)
  have rest: "\<forall>(k, x) \<in> set ms. findField fields_errorStruct k None = Some ''error'' \<longrightarrow>
     (\<forall>inner. x = JObject inner \<longrightarrow>
        (\<forall>(k', y) \<in> set inner. findField fields_ErrorData k' None \<noteq> Some ''message''))"
    using Cons.prems by simp
  show ?case
  proof (cases "findField fields_errorStruct k None = Some ''error''")
    case True
    then have "\<forall>inner. x = JObject inner \<longrightarrow>
        (\<forall>(k', y) \<in> set inner. findField fields_ErrorData k' None \<noteq> Some ''message'')"
      using Cons.prems m by simp
    then have "ErrorData.Message (snd (store_ErrorData x (s, ErrorData v))) =
        ErrorData.Message (ErrorData v)"
      by (rule store_ErrorData_Message_absent)
    then show ?thesis
      using True Cons.IH [OF rest] by (auto simp: m split: prod.splits)
  next
    case False
    then show ?thesis
      using Cons.IH [OF rest] by (simp add: m)
  qed
qed

lemma object_errorStruct_Code_absent:
  "\<forall>(k, x) \<in> set ms. findField fields_errorStruct k None = Some ''error'' \<longrightarrow>
     (\<forall>inner. x = JObject inner \<longrightarrow>
        (\<forall>(k', y) \<in> set inner. findField fields_ErrorData k' None \<noteq> Some ''code'')) \<Longrightarrow>
   ErrorData.Code (ErrorData (snd (object_errorStruct ms (s, v)))) =
   ErrorData.Code (ErrorData v)"
proof (induction ms arbitrary: s v)
  case Nil
  then show ?case by simp
next
  case (Cons m ms)
  obtain k x where m: "m = (k, x)" by (cases m)
  have rest: "\<forall>(k, x) \<in> set ms. findField fields_errorStruct k None = Some ''error'' \<longrightarrow>
     (\<forall>inner. x = JObject inner \<longrightarrow>
        (\<forall>(k', y) \<in> set inner. findField fields_ErrorData k' None \<noteq> Some ''code''))"
    using Cons.prems by simp
  show ?case
  proof (cases "findField fields_errorStruct k None = Some ''error''")
    case True
    then have "\<forall>inner. x = JObject inner \<longrightarrow>
        (\<forall>(k', y) \<in> set inner. findField fields_ErrorData k' None \<noteq> Some ''code'')"
      using Cons.prems m by simp
    then have "ErrorData.Code (snd (store_ErrorData x (s, ErrorData v))) =
        ErrorData.Code (ErrorData v)"
      by (rule store_ErrorData_Code_absent)
    then show ?thesis
      using True Cons.IH [OF rest] by (auto simp: m split: prod.splits)
  next
    case False
    then show ?thesis
      using Cons.IH [OF rest] by (simp add: m)
  qed
qed

lemma unmarshal_example:
  "ParseInt lit = Some n \<Longrightarrow>
   unmarshal_errorStruct
     (JObject [(''error'', JObject [(''message'', JString m), (''code'', JNumber lit)])])
     \<lparr>ErrorData = \<lparr>ErrorData.Message = '''', Code = 0\<rparr>\<rparr> =
   (None, \<lparr>ErrorData = \<lparr>ErrorData.Message = m, Code = n\<rparr>\<rparr>)"
  by (simp add: unmarshal_errorStruct_def fields_errorStruct_def fields_ErrorData_def)

lemma ParseInt_7: "ParseInt ''7'' = Some 7"
  by (simp add: ParseInt_def digit_def)

subsection \<open>Payloads that fail to decode, and payloads that decode leniently\<close>

text \<open>
  A value of the wrong JSON kind, at the top or under a key that finds a field, is a
  type error. A key that finds no field is skipped without error, and so is \<open>null\<close>.
\<close>

lemma object_errorStruct_no_error_key:
  "\<forall>(k, x) \<in> set ms. findField fields_errorStruct k None \<noteq> Some ''error'' \<Longrightarrow>
   object_errorStruct ms st = st"
proof (induction ms arbitrary: st)
  case Nil
  then show ?case by simp
next
  case (Cons m ms)
  obtain k x where m: "m = (k, x)" by (cases m)
  obtain s v where st: "st = (s, v)" by (cases st)
  have k: "findField fields_errorStruct k None \<noteq> Some ''error''"
    using Cons.prems m by simp
  have rest: "\<forall>(k, x) \<in> set ms. findField fields_errorStruct k None \<noteq> Some ''error''"
    using Cons.prems by simp
  show ?case
    using k Cons.IH [OF rest] by (simp add: m st)
qed

lemma unmarshal_wrong_kind:
  "unmarshal_errorStruct (JString s) v = (Some (UnmarshalTypeError ''string''), v)"
  "unmarshal_errorStruct (JNumber s) v = (Some (UnmarshalTypeError ''number''), v)"
  "unmarshal_errorStruct (JBool b) v = (Some (UnmarshalTypeError ''bool''), v)"
  "unmarshal_errorStruct (JArray xs) v = (Some (UnmarshalTypeError ''array''), v)"
  by (simp_all add: unmarshal_errorStruct_def saveError_def)

lemma unmarshal_error_member_wrong_kind:
  "fst (unmarshal_errorStruct (JObject [(''error'', JString s)]) v) =
     Some (UnmarshalTypeError ''string'')"
  "fst (unmarshal_errorStruct (JObject [(''error'', JArray xs)]) v) =
     Some (UnmarshalTypeError ''array'')"
  by (simp_all add: unmarshal_errorStruct_def saveError_def fields_errorStruct_def
      split: prod.splits)

lemma unmarshal_code_not_int:
  "ParseInt lit = None \<Longrightarrow>
   fst (unmarshal_errorStruct
     (JObject [(''error'', JObject [(''message'', JString m), (''code'', JNumber lit)])]) v) =
   Some (UnmarshalTypeError (''number '' @ lit))"
  by (simp add: unmarshal_errorStruct_def saveError_def fields_errorStruct_def
      fields_ErrorData_def split: prod.splits)

lemma unmarshal_code_string:
  "fst (unmarshal_errorStruct
     (JObject [(''error'', JObject [(''message'', JString m), (''code'', JString s)])]) v) =
   Some (UnmarshalTypeError ''string'')"
  by (simp add: unmarshal_errorStruct_def saveError_def fields_errorStruct_def
      fields_ErrorData_def split: prod.splits)

lemma unmarshal_lenient:
  "unmarshal_errorStruct JNull v = (None, v)"
  "\<forall>(k, x) \<in> set ms. findField fields_errorStruct k None \<noteq> Some ''error'' \<Longrightarrow>
   unmarshal_errorStruct (JObject ms) v = (None, v)"
  by (simp_all add: unmarshal_errorStruct_def object_errorStruct_no_error_key)

section \<open>Properties\<close>

subsection \<open>Classification of a response\<close>

text \<open>
  C1. For every response with a status code from 200 to 299, \<open>checkResponse\<close> returns
  nil whatever the body holds (the world \<open>w\<close>, and with it the content of the body, is
  arbitrary, and no event is recorded). When such a response answers a call of \<open>Do\<close>
  whose target is nil, the call returns nil and its events are the round trip and the
  deferred close only: no decode of the body, into the target or into the error struct,
  is attempted.
\<close>

theorem success_classification:
  assumes "200 \<le> StatusCode r" and "StatusCode r \<le> 299"
  shows "checkResponse w r = (None, []) \<and>
         (client_Do w (client c) (setHeaders c req) = Inr r \<longrightarrow>
            returned (Do w unmarshal c req None) = None \<and>
            target (Do w unmarshal c req None) = None \<and>
            trace (Do w unmarshal c req None) = RoundTrip (setHeaders c req) # deferred w r \<and>
            (\<forall>b. DecodeTarget b \<notin> set (trace (Do w unmarshal c req None)) \<and>
                 DecodeErrorStruct b \<notin> set (trace (Do w unmarshal c req None))))"
proof -
  have cr: "checkResponse w r = (None, [])"
    using assms by (rule checkResponse_success)
  have "\<forall>b. DecodeTarget b \<notin> set (deferred w r) \<and> DecodeErrorStruct b \<notin> set (deferred w r)"
    using deferred_cases [of w r] by auto
  then show ?thesis
    using cr by (auto simp: Do_success_nil [OF _ cr])
qed

theorem success_classification_witness:
  "checkResponse
     (sample_world (Inr \<lparr>StatusCode = 204, Body = 1\<rparr>) (Inl (SyntaxError ''invalid character'')) None)
     \<lparr>StatusCode = 204, Body = 1\<rparr> = (None, []) \<and>
   returned (Do
     (sample_world (Inr \<lparr>StatusCode = 204, Body = 1\<rparr>) (Inl (SyntaxError ''invalid character'')) None)
     unmarshal_string sample_client sample_request None) = None \<and>
   trace (Do
     (sample_world (Inr \<lparr>StatusCode = 204, Body = 1\<rparr>) (Inl (SyntaxError ''invalid character'')) None)
     unmarshal_string sample_client sample_request None) =
     [RoundTrip (setHeaders sample_client sample_request), CloseBody 1]"
  using success_classification
    [where r = "\<lparr>StatusCode = 204, Body = 1\<rparr>"
       and w = "sample_world (Inr \<lparr>StatusCode = 204, Body = 1\<rparr>)
                  (Inl (SyntaxError ''invalid character'')) None"
       and c = sample_client and req = sample_request and unmarshal = unmarshal_string]
  by (simp add: sample_world_def deferred_def)

text \<open>
  C2. A response with status 401 makes \<open>checkResponse\<close>, and the call of \<open>Do\<close> it
  answers, fail with exactly \<open>ErrNotAuthenticated\<close>; status 403 gives exactly
  \<open>ErrNotAuthorized\<close>. The body is not read (no event) and the result does not mention
  the world, so it is the same for every body content.
\<close>

theorem sentinel_errors:
  "(StatusCode r = 401 \<longrightarrow>
      checkResponse w r = (Some ErrNotAuthenticated, []) \<and>
      (client_Do w (client c) (setHeaders c req) = Inr r \<longrightarrow>
         returned (Do w unmarshal c req v) = Some ErrNotAuthenticated)) \<and>
   (StatusCode r = 403 \<longrightarrow>
      checkResponse w r = (Some ErrNotAuthorized, []) \<and>
      (client_Do w (client c) (setHeaders c req) = Inr r \<longrightarrow>
         returned (Do w unmarshal c req v) = Some ErrNotAuthorized))"
  by (auto simp: checkResponse_401 checkResponse_403 Do_classified_error)

theorem sentinel_errors_witness:
  "returned (Do
     (sample_world (Inr \<lparr>StatusCode = 401, Body = 1\<rparr>) (Inr (JString ''denied'')) None)
     unmarshal_string sample_client sample_request (Some ''before'')) = Some ErrNotAuthenticated \<and>
   returned (Do
     (sample_world (Inr \<lparr>StatusCode = 403, Body = 1\<rparr>) (Inl EOF) None)
     unmarshal_string sample_client sample_request (Some ''before'')) = Some ErrNotAuthorized"
  using sentinel_errors
    [where r = "\<lparr>StatusCode = 401, Body = 1\<rparr>"
       and w = "sample_world (Inr \<lparr>StatusCode = 401, Body = 1\<rparr>) (Inr (JString ''denied'')) None"
       and c = sample_client and req = sample_request and unmarshal = unmarshal_string
       and v = "Some ''before''"]
    sentinel_errors
    [where r = "\<lparr>StatusCode = 403, Body = 1\<rparr>"
       and w = "sample_world (Inr \<lparr>StatusCode = 403, Body = 1\<rparr>) (Inl EOF) None"
       and c = sample_client and req = sample_request and unmarshal = unmarshal_string
       and v = "Some ''before''"]
  by (simp add: sample_world_def)

text \<open>
  C3. For a response whose status is outside 200..299 and is neither 401 nor 403: when
  the body holds a JSON value that unmarshals into the error struct without error, the
  call fails with an \<open>ErrorResponse\<close> that carries the response itself and the message
  and code of the struct. For the body \<open>{"error":{"message":m,"code":n}}\<close>, with the
  code written as an integer literal in range (as \<open>7\<close> is), these are \<open>m\<close> and \<open>n\<close>.
  When no member of the payload's \<open>error\<close> objects has a key that finds the field
  \<open>message\<close>, the message is the empty string, and likewise the code is zero when no key
  finds \<open>code\<close>.
\<close>

theorem structured_error_response:
  assumes "\<not> (200 \<le> StatusCode r \<and> StatusCode r \<le> 299)"
    and "StatusCode r \<noteq> 401" and "StatusCode r \<noteq> 403"
  shows
    "(\<forall>j es. readValue w (Body r) = Inr j \<and>
        unmarshal_errorStruct j \<lparr>ErrorData = \<lparr>ErrorData.Message = '''', Code = 0\<rparr>\<rparr> =
          (None, es) \<longrightarrow>
        checkResponse w r =
          (Some (ErrorResponseError
             \<lparr>Response = r, Message = ErrorData.Message (ErrorData es),
              Code = ErrorData.Code (ErrorData es)\<rparr>), [DecodeErrorStruct (Body r)]) \<and>
        (client_Do w (client c) (setHeaders c req) = Inr r \<longrightarrow>
           returned (Do w unmarshal c req v) =
             Some (ErrorResponseError
               \<lparr>Response = r, Message = ErrorData.Message (ErrorData es),
                Code = ErrorData.Code (ErrorData es)\<rparr>))) \<and>
     (\<forall>m lit n. readValue w (Body r) =
          Inr (JObject [(''error'', JObject [(''message'', JString m), (''code'', JNumber lit)])]) \<and>
        ParseInt lit = Some n \<longrightarrow>
        checkResponse w r =
          (Some (ErrorResponseError \<lparr>Response = r, Message = m, Code = n\<rparr>),
           [DecodeErrorStruct (Body r)]) \<and>
        (client_Do w (client c) (setHeaders c req) = Inr r \<longrightarrow>
           returned (Do w unmarshal c req v) =
             Some (ErrorResponseError \<lparr>Response = r, Message = m, Code = n\<rparr>))) \<and>
     ParseInt ''7'' = Some 7 \<and>
     (\<forall>ms e. readValue w (Body r) = Inr (JObject ms) \<and>
        fst (checkResponse w r) = Some (ErrorResponseError e) \<longrightarrow>
        Response e = r \<and>
        ((\<forall>(k, x) \<in> set ms. findField fields_errorStruct k None = Some ''error'' \<longrightarrow>
            (\<forall>inner. x = JObject inner \<longrightarrow>
               (\<forall>(k', y) \<in> set inner.
                   findField fields_ErrorData k' None \<noteq> Some ''message''))) \<longrightarrow>
         ErrorResponse.Message e = '''') \<and>
        ((\<forall>(k, x) \<in> set ms. findField fields_errorStruct k None = Some ''error'' \<longrightarrow>
            (\<forall>inner. x = JObject inner \<longrightarrow>
               (\<forall>(k', y) \<in> set inner.
                   findField fields_ErrorData k' None \<noteq> Some ''code''))) \<longrightarrow>
         ErrorResponse.Code e = 0))"
proof -
  note cr = checkResponse_other [OF assms, of w]
  have general: "\<forall>j es. readValue w (Body r) = Inr j \<and>
        unmarshal_errorStruct j \<lparr>ErrorData = \<lparr>ErrorData.Message = '''', Code = 0\<rparr>\<rparr> =
          (None, es) \<longrightarrow>
        checkResponse w r =
          (Some (ErrorResponseError
             \<lparr>Response = r, Message = ErrorData.Message (ErrorData es),
              Code = ErrorData.Code (ErrorData es)\<rparr>), [DecodeErrorStruct (Body r)]) \<and>
        (client_Do w (client c) (setHeaders c req) = Inr r \<longrightarrow>
           returned (Do w unmarshal c req v) =
             Some (ErrorResponseError
               \<lparr>Response = r, Message = ErrorData.Message (ErrorData es),
                Code = ErrorData.Code (ErrorData es)\<rparr>))"
    by (auto simp: cr Decode_def Do_returned)
  have example: "\<forall>m lit n. readValue w (Body r) =
          Inr (JObject [(''error'', JObject [(''message'', JString m), (''code'', JNumber lit)])]) \<and>
        ParseInt lit = Some n \<longrightarrow>
        checkResponse w r =
          (Some (ErrorResponseError \<lparr>Response = r, Message = m, Code = n\<rparr>),
           [DecodeErrorStruct (Body r)]) \<and>
        (client_Do w (client c) (setHeaders c req) = Inr r \<longrightarrow>
           returned (Do w unmarshal c req v) =
             Some (ErrorResponseError \<lparr>Response = r, Message = m, Code = n\<rparr>))"
    by (auto simp: cr Decode_def Do_returned unmarshal_example)
  have absent: "\<forall>ms e. readValue w (Body r) = Inr (JObject ms) \<and>
        fst (checkResponse w r) = Some (ErrorResponseError e) \<longrightarrow>
        Response e = r \<and>
        ((\<forall>(k, x) \<in> set ms. findField fields_errorStruct k None = Some ''error'' \<longrightarrow>
            (\<forall>inner. x = JObject inner \<longrightarrow>
               (\<forall>(k', y) \<in> set inner.
                   findField fields_ErrorData k' None \<noteq> Some ''message''))) \<longrightarrow>
         ErrorResponse.Message e = '''') \<and>
        ((\<forall>(k, x) \<in> set ms. findField fields_errorStruct k None = Some ''error'' \<longrightarrow>
            (\<forall>inner. x = JObject inner \<longrightarrow>
               (\<forall>(k', y) \<in> set inner.
                   findField fields_ErrorData k' None \<noteq> Some ''code''))) \<longrightarrow>
         ErrorResponse.Code e = 0)"
  proof (intro allI impI, elim conjE)
    fix ms e
    assume rv: "readValue w (Body r) = Inr (JObject ms)"
      and e: "fst (checkResponse w r) = Some (ErrorResponseError e)"
    define st where
      "st = object_errorStruct ms (None, \<lparr>ErrorData = \<lparr>ErrorData.Message = '''', Code = 0\<rparr>\<rparr>)"
    have dec: "Decode w unmarshal_errorStruct (Body r)
        \<lparr>ErrorData = \<lparr>ErrorData.Message = '''', Code = 0\<rparr>\<rparr> = st"
      by (simp add: Decode_def rv unmarshal_errorStruct_def st_def)
    have e_eq: "e = \<lparr>Response = r, Message = ErrorData.Message (ErrorData (snd st)),
                     Code = ErrorData.Code (ErrorData (snd st))\<rparr>"
      using e by (cases st; cases "fst st") (auto simp: cr dec errors_Wrap_def)
    have m: "(\<forall>(k, x) \<in> set ms. findField fields_errorStruct k None = Some ''error'' \<longrightarrow>
            (\<forall>inner. x = JObject inner \<longrightarrow>
               (\<forall>(k', y) \<in> set inner.
                   findField fields_ErrorData k' None \<noteq> Some ''message''))) \<longrightarrow>
         ErrorResponse.Message e = ''''"
      using object_errorStruct_Message_absent [of ms None
          "\<lparr>ErrorData = \<lparr>ErrorData.Message = '''', Code = 0\<rparr>\<rparr>"]
      by (simp add: e_eq st_def)
    have c: "(\<forall>(k, x) \<in> set ms. findField fields_errorStruct k None = Some ''error'' \<longrightarrow>
            (\<forall>inner. x = JObject inner \<longrightarrow>
               (\<forall>(k', y) \<in> set inner.
                   findField fields_ErrorData k' None \<noteq> Some ''code''))) \<longrightarrow>
         ErrorResponse.Code e = 0"
      using object_errorStruct_Code_absent [of ms None
          "\<lparr>ErrorData = \<lparr>ErrorData.Message = '''', Code = 0\<rparr>\<rparr>"]
      by (simp add: e_eq st_def)
    show "Response e = r \<and>
        ((\<forall>(k, x) \<in> set ms. findField fields_errorStruct k None = Some ''error'' \<longrightarrow>
            (\<forall>inner. x = JObject inner \<longrightarrow>
               (\<forall>(k', y) \<in> set inner.
                   findField fields_ErrorData k' None \<noteq> Some ''message''))) \<longrightarrow>
         ErrorResponse.Message e = '''') \<and>
        ((\<forall>(k, x) \<in> set ms. findField fields_errorStruct k None = Some ''error'' \<longrightarrow>
            (\<forall>inner. x = JObject inner \<longrightarrow>
               (\<forall>(k', y) \<in> set inner.
                   findField fields_ErrorData k' None \<noteq> Some ''code''))) \<longrightarrow>
         ErrorResponse.Code e = 0)"
      using m c by (simp add: e_eq)
  qed
  show ?thesis
    using general example absent ParseInt_7 by (intro conjI)
qed

theorem structured_error_response_witness:
  "returned (Do
     (sample_world (Inr \<lparr>StatusCode = 500, Body = 1\<rparr>)
        (Inr (JObject [(''error'', JObject [(''message'', JString ''m''), (''code'', JNumber ''7'')])]))
        None)
     unmarshal_string sample_client sample_request (Some ''before'')) =
     Some (ErrorResponseError
       \<lparr>Response = \<lparr>StatusCode = 500, Body = 1\<rparr>, Message = ''m'', Code = 7\<rparr>) \<and>
   (\<exists>e. checkResponse
          (sample_world (Inr \<lparr>StatusCode = 500, Body = 1\<rparr>)
             (Inr (JObject [(''error'', JObject [(''Code'', JNumber ''7'')])])) None)
          \<lparr>StatusCode = 500, Body = 1\<rparr> =
          (Some (ErrorResponseError e), [DecodeErrorStruct 1]) \<and>
        Response e = \<lparr>StatusCode = 500, Body = 1\<rparr> \<and> ErrorResponse.Message e = '''') \<and>
   (\<exists>e. checkResponse
          (sample_world (Inr \<lparr>StatusCode = 500, Body = 1\<rparr>) (Inr (JObject [])) None)
          \<lparr>StatusCode = 500, Body = 1\<rparr> =
          (Some (ErrorResponseError e), [DecodeErrorStruct 1]) \<and>
        ErrorResponse.Message e = '''' \<and> ErrorResponse.Code e = 0)"
proof -
  define r :: Response where "r = \<lparr>StatusCode = 500, Body = 1\<rparr>"
  have other: "\<not> (200 \<le> StatusCode r \<and> StatusCode r \<le> 299)" "StatusCode r \<noteq> 401"
    "StatusCode r \<noteq> 403"
    by (simp_all add: r_def)
  define w1 where "w1 = sample_world (Inr r)
        (Inr (JObject [(''error'', JObject [(''message'', JString ''m''), (''code'', JNumber ''7'')])]))
        None"
  define w2 where "w2 = sample_world (Inr r)
        (Inr (JObject [(''error'', JObject [(''Code'', JNumber ''7'')])])) None"
  define w3 where "w3 = sample_world (Inr r) (Inr (JObject [])) None"
  note t1 = structured_error_response [OF other, where w = w1 and c = sample_client
      and req = sample_request and unmarshal = unmarshal_string and v = "Some ''before''"]
  note t2 = structured_error_response [OF other, where w = w2 and c = sample_client
      and req = sample_request and unmarshal = unmarshal_string and v = "Some ''before''"]
  note t3 = structured_error_response [OF other, where w = w3 and c = sample_client
      and req = sample_request and unmarshal = unmarshal_string and v = "Some ''before''"]
  have seven: "ParseInt ''7'' = Some 7"
    using t1 by (elim conjE)
  have 1: "returned (Do w1 unmarshal_string sample_client sample_request (Some ''before'')) =
      Some (ErrorResponseError \<lparr>Response = r, Message = ''m'', Code = 7\<rparr>)"
    using t1 [THEN conjunct2, THEN conjunct1, rule_format, of "''m''" "''7''" 7] seven
    by (simp add: w1_def sample_world_def)
  obtain e2 where e2: "checkResponse w2 r = (Some (ErrorResponseError e2), [DecodeErrorStruct 1])"
    using t2 [THEN conjunct1, rule_format, of "JObject [(''error'', JObject [(''Code'', JNumber ''7'')])]"
        "\<lparr>ErrorData = \<lparr>ErrorData.Message = '''', Code = 7\<rparr>\<rparr>"] seven
    by (simp add: w2_def sample_world_def r_def unmarshal_errorStruct_def fields_errorStruct_def
        fields_ErrorData_def caseMask_def)
  have 2: "Response e2 = r \<and> ErrorResponse.Message e2 = ''''"
    using t2 [THEN conjunct2, THEN conjunct2, THEN conjunct2, rule_format,
        of "[(''error'', JObject [(''Code'', JNumber ''7'')])]" e2] e2
    by (simp add: w2_def sample_world_def r_def fields_ErrorData_def caseMask_def RuneSelf_def)
  obtain e3 where e3: "checkResponse w3 r = (Some (ErrorResponseError e3), [DecodeErrorStruct 1])"
    using t3 [THEN conjunct1, rule_format, of "JObject []"
        "\<lparr>ErrorData = \<lparr>ErrorData.Message = '''', Code = 0\<rparr>\<rparr>"]
    by (simp add: w3_def sample_world_def r_def unmarshal_errorStruct_def)
  have 3: "ErrorResponse.Message e3 = '''' \<and> ErrorResponse.Code e3 = 0"
    using t3 [THEN conjunct2, THEN conjunct2, THEN conjunct2, rule_format, of "[]" e3] e3
    by (simp add: w3_def sample_world_def)
  show ?thesis
    using 1 e2 2 e3 3 unfolding w1_def w2_def w3_def r_def by blast
qed

text \<open>
  C4. For a response whose status is outside 200..299 and is neither 401 nor 403: when
  decoding the body into the error struct fails with an error \<open>err\<close>, the call fails
  with \<open>err\<close> wrapped under the message "Non-standard API error response"; the wrapped
  error is not an \<open>ErrorResponse\<close>, its cause is the cause of \<open>err\<close>, and it arises
  only from a failed decode. The decode fails when the body ends before a value, is not
  JSON or cannot be read, and when it holds a value of the wrong type: a top-level
  string, number, boolean or array, an \<open>error\<close> member that is a string or an array, a
  \<open>code\<close> that is a string or a number that is not an integer in range. A body that is
  valid JSON and merely lacks the expected members does not fail to decode: \<open>null\<close>, and
  every object none of whose keys finds the field \<open>error\<close>, give an \<open>ErrorResponse\<close>
  with the empty message and the code zero, not the wrapped error.
\<close>

theorem nonstandard_error_wrapped:
  assumes "\<not> (200 \<le> StatusCode r \<and> StatusCode r \<le> 299)"
    and "StatusCode r \<noteq> 401" and "StatusCode r \<noteq> 403"
  shows
    "(\<forall>err es.
        Decode w unmarshal_errorStruct (Body r)
          \<lparr>ErrorData = \<lparr>ErrorData.Message = '''', Code = 0\<rparr>\<rparr> = (Some err, es) \<longrightarrow>
        checkResponse w r =
          (Some (Wrapped err ''Non-standard API error response''), [DecodeErrorStruct (Body r)]) \<and>
        (\<forall>e. Wrapped err ''Non-standard API error response'' \<noteq> ErrorResponseError e) \<and>
        Cause (Wrapped err ''Non-standard API error response'') = Cause err \<and>
        (client_Do w (client c) (setHeaders c req) = Inr r \<longrightarrow>
           returned (Do w unmarshal c req v) =
             Some (Wrapped err ''Non-standard API error response''))) \<and>
     (\<forall>err. readValue w (Body r) = Inl err \<longrightarrow>
        checkResponse w r =
          (Some (Wrapped err ''Non-standard API error response''), [DecodeErrorStruct (Body r)])) \<and>
     (\<forall>j err es. readValue w (Body r) = Inr j \<and>
        unmarshal_errorStruct j \<lparr>ErrorData = \<lparr>ErrorData.Message = '''', Code = 0\<rparr>\<rparr> =
          (Some err, es) \<longrightarrow>
        checkResponse w r =
          (Some (Wrapped err ''Non-standard API error response''), [DecodeErrorStruct (Body r)])) \<and>
     (\<forall>err. fst (checkResponse w r) = Some (Wrapped err ''Non-standard API error response'') \<longrightarrow>
        fst (Decode w unmarshal_errorStruct (Body r)
          \<lparr>ErrorData = \<lparr>ErrorData.Message = '''', Code = 0\<rparr>\<rparr>) = Some err) \<and>
     (\<forall>s. readValue w (Body r) = Inr (JString s) \<longrightarrow>
        fst (checkResponse w r) =
          Some (Wrapped (UnmarshalTypeError ''string'') ''Non-standard API error response'')) \<and>
     (\<forall>s. readValue w (Body r) = Inr (JNumber s) \<longrightarrow>
        fst (checkResponse w r) =
          Some (Wrapped (UnmarshalTypeError ''number'') ''Non-standard API error response'')) \<and>
     (\<forall>b. readValue w (Body r) = Inr (JBool b) \<longrightarrow>
        fst (checkResponse w r) =
          Some (Wrapped (UnmarshalTypeError ''bool'') ''Non-standard API error response'')) \<and>
     (\<forall>xs. readValue w (Body r) = Inr (JArray xs) \<longrightarrow>
        fst (checkResponse w r) =
          Some (Wrapped (UnmarshalTypeError ''array'') ''Non-standard API error response'')) \<and>
     (\<forall>s. readValue w (Body r) = Inr (JObject [(''error'', JString s)]) \<longrightarrow>
        fst (checkResponse w r) =
          Some (Wrapped (UnmarshalTypeError ''string'') ''Non-standard API error response'')) \<and>
     (\<forall>xs. readValue w (Body r) = Inr (JObject [(''error'', JArray xs)]) \<longrightarrow>
        fst (checkResponse w r) =
          Some (Wrapped (UnmarshalTypeError ''array'') ''Non-standard API error response'')) \<and>
     (\<forall>m lit. readValue w (Body r) =
          Inr (JObject [(''error'', JObject [(''message'', JString m), (''code'', JNumber lit)])]) \<and>
        ParseInt lit = None \<longrightarrow>
        fst (checkResponse w r) =
          Some (Wrapped (UnmarshalTypeError (''number '' @ lit))
                  ''Non-standard API error response'')) \<and>
     (\<forall>m s. readValue w (Body r) =
          Inr (JObject [(''error'', JObject [(''message'', JString m), (''code'', JString s)])]) \<longrightarrow>
        fst (checkResponse w r) =
          Some (Wrapped (UnmarshalTypeError ''string'') ''Non-standard API error response'')) \<and>
     (readValue w (Body r) = Inr JNull \<longrightarrow>
        fst (checkResponse w r) =
          Some (ErrorResponseError \<lparr>Response = r, Message = '''', Code = 0\<rparr>)) \<and>
     (\<forall>ms. readValue w (Body r) = Inr (JObject ms) \<and>
        (\<forall>(k, x) \<in> set ms. findField fields_errorStruct k None \<noteq> Some ''error'') \<longrightarrow>
        fst (checkResponse w r) =
          Some (ErrorResponseError \<lparr>Response = r, Message = '''', Code = 0\<rparr>))"
proof -
  note cr = checkResponse_other [OF assms, of w]
  have dec: "\<And>j. readValue w (Body r) = Inr j \<Longrightarrow>
      Decode w unmarshal_errorStruct (Body r)
        \<lparr>ErrorData = \<lparr>ErrorData.Message = '''', Code = 0\<rparr>\<rparr> =
      unmarshal_errorStruct j \<lparr>ErrorData = \<lparr>ErrorData.Message = '''', Code = 0\<rparr>\<rparr>"
    by (simp add: Decode_def)
  have failed: "\<And>j err. readValue w (Body r) = Inr j \<Longrightarrow>
      fst (unmarshal_errorStruct j \<lparr>ErrorData = \<lparr>ErrorData.Message = '''', Code = 0\<rparr>\<rparr>) =
        Some err \<Longrightarrow>
      fst (checkResponse w r) = Some (Wrapped err ''Non-standard API error response'')"
    by (auto simp: cr dec split: prod.splits)
  have passed: "\<And>j. readValue w (Body r) = Inr j \<Longrightarrow>
      unmarshal_errorStruct j \<lparr>ErrorData = \<lparr>ErrorData.Message = '''', Code = 0\<rparr>\<rparr> =
        (None, \<lparr>ErrorData = \<lparr>ErrorData.Message = '''', Code = 0\<rparr>\<rparr>) \<Longrightarrow>
      fst (checkResponse w r) =
        Some (ErrorResponseError \<lparr>Response = r, Message = '''', Code = 0\<rparr>)"
    by (simp add: cr dec)
  have general: "(\<forall>err es.
        Decode w unmarshal_errorStruct (Body r)
          \<lparr>ErrorData = \<lparr>ErrorData.Message = '''', Code = 0\<rparr>\<rparr> = (Some err, es) \<longrightarrow>
        checkResponse w r =
          (Some (Wrapped err ''Non-standard API error response''), [DecodeErrorStruct (Body r)]) \<and>
        (\<forall>e. Wrapped err ''Non-standard API error response'' \<noteq> ErrorResponseError e) \<and>
        Cause (Wrapped err ''Non-standard API error response'') = Cause err \<and>
        (client_Do w (client c) (setHeaders c req) = Inr r \<longrightarrow>
           returned (Do w unmarshal c req v) =
             Some (Wrapped err ''Non-standard API error response''))) \<and>
     (\<forall>err. readValue w (Body r) = Inl err \<longrightarrow>
        checkResponse w r =
          (Some (Wrapped err ''Non-standard API error response''), [DecodeErrorStruct (Body r)])) \<and>
     (\<forall>j err es. readValue w (Body r) = Inr j \<and>
        unmarshal_errorStruct j \<lparr>ErrorData = \<lparr>ErrorData.Message = '''', Code = 0\<rparr>\<rparr> =
          (Some err, es) \<longrightarrow>
        checkResponse w r =
          (Some (Wrapped err ''Non-standard API error response''), [DecodeErrorStruct (Body r)])) \<and>
     (\<forall>err. fst (checkResponse w r) = Some (Wrapped err ''Non-standard API error response'') \<longrightarrow>
        fst (Decode w unmarshal_errorStruct (Body r)
          \<lparr>ErrorData = \<lparr>ErrorData.Message = '''', Code = 0\<rparr>\<rparr>) = Some err)"
    by (auto simp: cr Decode_def Do_returned split: sum.splits prod.splits option.splits)
  have k1: "\<forall>s. readValue w (Body r) = Inr (JString s) \<longrightarrow>
        fst (checkResponse w r) =
          Some (Wrapped (UnmarshalTypeError ''string'') ''Non-standard API error response'')"
    using failed by (simp add: unmarshal_wrong_kind)
  have k2: "\<forall>s. readValue w (Body r) = Inr (JNumber s) \<longrightarrow>
        fst (checkResponse w r) =
          Some (Wrapped (UnmarshalTypeError ''number'') ''Non-standard API error response'')"
    using failed by (simp add: unmarshal_wrong_kind)
  have k3: "\<forall>b. readValue w (Body r) = Inr (JBool b) \<longrightarrow>
        fst (checkResponse w r) =
          Some (Wrapped (UnmarshalTypeError ''bool'') ''Non-standard API error response'')"
    using failed by (simp add: unmarshal_wrong_kind)
  have k4: "\<forall>xs. readValue w (Body r) = Inr (JArray xs) \<longrightarrow>
        fst (checkResponse w r) =
          Some (Wrapped (UnmarshalTypeError ''array'') ''Non-standard API error response'')"
    using failed by (simp add: unmarshal_wrong_kind)
  have m1: "\<forall>s. readValue w (Body r) = Inr (JObject [(''error'', JString s)]) \<longrightarrow>
        fst (checkResponse w r) =
          Some (Wrapped (UnmarshalTypeError ''string'') ''Non-standard API error response'')"
    using failed by (simp add: unmarshal_error_member_wrong_kind)
  have m2: "\<forall>xs. readValue w (Body r) = Inr (JObject [(''error'', JArray xs)]) \<longrightarrow>
        fst (checkResponse w r) =
          Some (Wrapped (UnmarshalTypeError ''array'') ''Non-standard API error response'')"
    using failed by (simp add: unmarshal_error_member_wrong_kind)
  have c1: "\<forall>m lit. readValue w (Body r) =
          Inr (JObject [(''error'', JObject [(''message'', JString m), (''code'', JNumber lit)])]) \<and>
        ParseInt lit = None \<longrightarrow>
        fst (checkResponse w r) =
          Some (Wrapped (UnmarshalTypeError (''number '' @ lit))
                  ''Non-standard API error response'')"
    using failed by (simp add: unmarshal_code_not_int)
  have c2: "\<forall>m s. readValue w (Body r) =
          Inr (JObject [(''error'', JObject [(''message'', JString m), (''code'', JString s)])]) \<longrightarrow>
        fst (checkResponse w r) =
          Some (Wrapped (UnmarshalTypeError ''string'') ''Non-standard API error response'')"
    using failed by (simp add: unmarshal_code_string)
  have l1: "readValue w (Body r) = Inr JNull \<longrightarrow>
        fst (checkResponse w r) =
          Some (ErrorResponseError \<lparr>Response = r, Message = '''', Code = 0\<rparr>)"
    using passed by (simp add: unmarshal_lenient)
  have l2: "\<forall>ms. readValue w (Body r) = Inr (JObject ms) \<and>
        (\<forall>(k, x) \<in> set ms. findField fields_errorStruct k None \<noteq> Some ''error'') \<longrightarrow>
        fst (checkResponse w r) =
          Some (ErrorResponseError \<lparr>Response = r, Message = '''', Code = 0\<rparr>)"
    using passed by (simp add: unmarshal_lenient)
  show ?thesis
    using general k1 k2 k3 k4 m1 m2 c1 c2 l1 l2 by (intro conjI) (elim conjE, assumption)+
qed

theorem nonstandard_error_wrapped_witness:
  "returned (Do
     (sample_world (Inr \<lparr>StatusCode = 502, Body = 1\<rparr>)
        (Inl (SyntaxError ''invalid character B looking for beginning of value'')) None)
     unmarshal_string sample_client sample_request (Some ''before'')) =
     Some (Wrapped (SyntaxError ''invalid character B looking for beginning of value'')
             ''Non-standard API error response'') \<and>
   Cause (Wrapped (SyntaxError ''invalid character B looking for beginning of value'')
            ''Non-standard API error response'') =
     SyntaxError ''invalid character B looking for beginning of value'' \<and>
   checkResponse
     (sample_world (Inr \<lparr>StatusCode = 502, Body = 1\<rparr>) (Inr (JArray [])) None)
     \<lparr>StatusCode = 502, Body = 1\<rparr> =
     (Some (Wrapped (UnmarshalTypeError ''array'') ''Non-standard API error response''),
      [DecodeErrorStruct 1]) \<and>
   fst (checkResponse
     (sample_world (Inr \<lparr>StatusCode = 502, Body = 1\<rparr>)
        (Inr (JObject [(''error'', JString ''oops'')])) None)
     \<lparr>StatusCode = 502, Body = 1\<rparr>) =
     Some (Wrapped (UnmarshalTypeError ''string'') ''Non-standard API error response'') \<and>
   fst (checkResponse
     (sample_world (Inr \<lparr>StatusCode = 502, Body = 1\<rparr>)
        (Inr (JObject [(''error'', JObject [(''message'', JString ''m''), (''code'', JNumber ''1.5'')])]))
        None)
     \<lparr>StatusCode = 502, Body = 1\<rparr>) =
     Some (Wrapped (UnmarshalTypeError ''number 1.5'') ''Non-standard API error response'') \<and>
   fst (checkResponse
     (sample_world (Inr \<lparr>StatusCode = 502, Body = 1\<rparr>)
        (Inr (JObject [(''detail'', JString ''Not found.'')])) None)
     \<lparr>StatusCode = 502, Body = 1\<rparr>) =
     Some (ErrorResponseError
       \<lparr>Response = \<lparr>StatusCode = 502, Body = 1\<rparr>, Message = '''', Code = 0\<rparr>)"
proof -
  define r :: Response where "r = \<lparr>StatusCode = 502, Body = 1\<rparr>"
  define bad where "bad = SyntaxError ''invalid character B looking for beginning of value''"
  have other: "\<not> (200 \<le> StatusCode r \<and> StatusCode r \<le> 299)" "StatusCode r \<noteq> 401"
    "StatusCode r \<noteq> 403"
    by (simp_all add: r_def)
  define w1 where "w1 = sample_world (Inr r) (Inl bad) None"
  define w2 where "w2 = sample_world (Inr r) (Inr (JArray [])) None"
  define w3 where "w3 = sample_world (Inr r) (Inr (JObject [(''error'', JString ''oops'')])) None"
  define w4 where "w4 = sample_world (Inr r)
      (Inr (JObject [(''error'', JObject [(''message'', JString ''m''), (''code'', JNumber ''1.5'')])]))
      None"
  define w5 where
    "w5 = sample_world (Inr r) (Inr (JObject [(''detail'', JString ''Not found.'')])) None"
  note t1 = nonstandard_error_wrapped [OF other, where w = w1 and c = sample_client
      and req = sample_request and unmarshal = unmarshal_string and v = "Some ''before''"]
  note t2 = nonstandard_error_wrapped [OF other, where w = w2 and c = sample_client
      and req = sample_request and unmarshal = unmarshal_string and v = "Some ''before''"]
  note t3 = nonstandard_error_wrapped [OF other, where w = w3 and c = sample_client
      and req = sample_request and unmarshal = unmarshal_string and v = "Some ''before''"]
  note t4 = nonstandard_error_wrapped [OF other, where w = w4 and c = sample_client
      and req = sample_request and unmarshal = unmarshal_string and v = "Some ''before''"]
  note t5 = nonstandard_error_wrapped [OF other, where w = w5 and c = sample_client
      and req = sample_request and unmarshal = unmarshal_string and v = "Some ''before''"]
  have 1: "returned (Do w1 unmarshal_string sample_client sample_request (Some ''before'')) =
      Some (Wrapped bad ''Non-standard API error response'') \<and>
      Cause (Wrapped bad ''Non-standard API error response'') = bad"
    using t1 [THEN conjunct1, rule_format, of bad
        "\<lparr>ErrorData = \<lparr>ErrorData.Message = '''', Code = 0\<rparr>\<rparr>"]
    by (simp add: w1_def sample_world_def Decode_def bad_def)
  have 2: "checkResponse w2 r =
      (Some (Wrapped (UnmarshalTypeError ''array'') ''Non-standard API error response''),
       [DecodeErrorStruct 1])"
    using t2 [THEN conjunct2, THEN conjunct2, THEN conjunct1, rule_format, of "JArray []"
        "UnmarshalTypeError ''array''" "\<lparr>ErrorData = \<lparr>ErrorData.Message = '''', Code = 0\<rparr>\<rparr>"]
    by (simp add: w2_def sample_world_def unmarshal_errorStruct_def saveError_def r_def)
  have 3: "fst (checkResponse w3 r) =
      Some (Wrapped (UnmarshalTypeError ''string'') ''Non-standard API error response'')"
    using t3 [THEN conjunct2, THEN conjunct2, THEN conjunct2, THEN conjunct2, THEN conjunct2,
        THEN conjunct2, THEN conjunct2, THEN conjunct2, THEN conjunct1, rule_format,
        of "''oops''"]
    by (simp add: w3_def sample_world_def)
  have frac: "ParseInt ''1.5'' = None"
    by (simp add: ParseInt_def digit_def)
  have 4: "fst (checkResponse w4 r) =
      Some (Wrapped (UnmarshalTypeError ''number 1.5'') ''Non-standard API error response'')"
    using t4 [THEN conjunct2, THEN conjunct2, THEN conjunct2, THEN conjunct2, THEN conjunct2,
        THEN conjunct2, THEN conjunct2, THEN conjunct2, THEN conjunct2, THEN conjunct2,
        THEN conjunct1, rule_format, of "''m''" "''1.5''"] frac
    by (simp add: w4_def sample_world_def)
  have 5: "fst (checkResponse w5 r) =
      Some (ErrorResponseError \<lparr>Response = r, Message = '''', Code = 0\<rparr>)"
    using t5 [THEN conjunct2, THEN conjunct2, THEN conjunct2, THEN conjunct2, THEN conjunct2,
        THEN conjunct2, THEN conjunct2, THEN conjunct2, THEN conjunct2, THEN conjunct2,
        THEN conjunct2, THEN conjunct2, THEN conjunct2, rule_format,
        of "[(''detail'', JString ''Not found.'')]"]
    by (simp add: w5_def sample_world_def fields_errorStruct_def caseMask_def)
  show ?thesis
    using 1 2 3 4 5 unfolding w1_def w2_def w3_def w4_def w5_def r_def bad_def by blast
qed

text \<open>
  The statement with "the body does not have the shape \<open>{error:{message,code}}\<close>" in
  place of "the decode fails" does not hold. At status 404 the body
  \<open>{"detail":"Not found."}\<close> has no member that finds the field \<open>error\<close>, and neither
  has \<open>null\<close>; yet \<open>Do\<close> returns an \<open>ErrorResponse\<close> with the empty message and the code
  zero, and not a wrapped error.
\<close>

theorem unmatched_body_counterexample:
  "findField fields_errorStruct ''detail'' None = None \<and>
   returned (Do
     (sample_world (Inr \<lparr>StatusCode = 404, Body = 1\<rparr>)
        (Inr (JObject [(''detail'', JString ''Not found.'')])) None)
     unmarshal_string sample_client sample_request (Some ''before'')) =
     Some (ErrorResponseError
       \<lparr>Response = \<lparr>StatusCode = 404, Body = 1\<rparr>, Message = '''', Code = 0\<rparr>) \<and>
   \<not> (\<exists>err msg. returned (Do
     (sample_world (Inr \<lparr>StatusCode = 404, Body = 1\<rparr>)
        (Inr (JObject [(''detail'', JString ''Not found.'')])) None)
     unmarshal_string sample_client sample_request (Some ''before'')) =
     Some (Wrapped err msg)) \<and>
   returned (Do
     (sample_world (Inr \<lparr>StatusCode = 404, Body = 1\<rparr>) (Inr JNull) None)
     unmarshal_string sample_client sample_request (Some ''before'')) =
     Some (ErrorResponseError
       \<lparr>Response = \<lparr>StatusCode = 404, Body = 1\<rparr>, Message = '''', Code = 0\<rparr>)"
proof -
  define r :: Response where "r = \<lparr>StatusCode = 404, Body = 1\<rparr>"
  define z :: errorStruct where "z = \<lparr>ErrorData = \<lparr>ErrorData.Message = '''', Code = 0\<rparr>\<rparr>"
  have key: "findField fields_errorStruct ''detail'' None = None"
    by (simp add: fields_errorStruct_def)
  have u1: "unmarshal_errorStruct (JObject [(''detail'', JString ''Not found.'')]) z = (None, z)"
    by (simp add: unmarshal_errorStruct_def key)
  have u2: "unmarshal_errorStruct JNull z = (None, z)"
    by (simp add: unmarshal_errorStruct_def)
  have c1: "checkResponse
      (sample_world (Inr r) (Inr (JObject [(''detail'', JString ''Not found.'')])) None) r =
      (Some (ErrorResponseError \<lparr>Response = r, Message = '''', Code = 0\<rparr>),
       [DecodeErrorStruct 1])"
    using u1 by (simp add: checkResponse_def Decode_def sample_world_def r_def z_def)
  have c2: "checkResponse (sample_world (Inr r) (Inr JNull) None) r =
      (Some (ErrorResponseError \<lparr>Response = r, Message = '''', Code = 0\<rparr>),
       [DecodeErrorStruct 1])"
    using u2 by (simp add: checkResponse_def Decode_def sample_world_def r_def z_def)
  have d1: "returned (Do
      (sample_world (Inr r) (Inr (JObject [(''detail'', JString ''Not found.'')])) None)
      unmarshal_string sample_client sample_request (Some ''before'')) =
      Some (ErrorResponseError \<lparr>Response = r, Message = '''', Code = 0\<rparr>)"
    by (simp add: Do_returned c1) (simp add: sample_world_def c1 [unfolded sample_world_def])
  have d2: "returned (Do (sample_world (Inr r) (Inr JNull) None)
      unmarshal_string sample_client sample_request (Some ''before'')) =
      Some (ErrorResponseError \<lparr>Response = r, Message = '''', Code = 0\<rparr>)"
    by (simp add: Do_returned c2) (simp add: sample_world_def c2 [unfolded sample_world_def])
  show ?thesis
    using key d1 d2 unfolding r_def by simp
qed

subsection \<open>Host resolution\<close>

text \<open>
  C5. Host resolution at construction, for every token, host argument and version: a
  non-empty \<open>K6CLOUD_HOST\<close> takes precedence over the host argument; with the variable
  unset or empty the host argument is used, and when that is empty too the host is
  \<open>https://ingest.loadimpact.com\<close>; the base URL is the resolved host followed by
  \<open>/v1\<close>. Token and version are stored as given.
\<close>

theorem NewClient_host_resolution:
  "(os_Getenv ''K6CLOUD_HOST'' \<noteq> '''' \<longrightarrow>
      baseURL (NewClient os_Getenv t h v) = os_Getenv ''K6CLOUD_HOST'' @ ''/v1'') \<and>
   (os_Getenv ''K6CLOUD_HOST'' = '''' \<and> h \<noteq> '''' \<longrightarrow>
      baseURL (NewClient os_Getenv t h v) = h @ ''/v1'') \<and>
   (os_Getenv ''K6CLOUD_HOST'' = '''' \<and> h = '''' \<longrightarrow>
      baseURL (NewClient os_Getenv t h v) = ''https://ingest.loadimpact.com/v1'') \<and>
   token (NewClient os_Getenv t h v) = t \<and>
   version (NewClient os_Getenv t h v) = v"
  by (simp add: NewClient_def Let_def)

theorem NewClient_host_resolution_witness:
  "baseURL (NewClient (\<lambda>k. if k = ''K6CLOUD_HOST'' then ''https://example.test'' else '''')
      ''tok'' '''' ''1.0'') = ''https://example.test/v1'' \<and>
   baseURL (NewClient (\<lambda>k. if k = ''K6CLOUD_HOST'' then ''https://example.test'' else '''')
      ''tok'' ''https://other.test'' ''1.0'') = ''https://example.test/v1'' \<and>
   baseURL (NewClient (\<lambda>k. '''') ''tok'' ''https://other.test'' ''1.0'') =
      ''https://other.test/v1'' \<and>
   baseURL (NewClient (\<lambda>k. '''') ''tok'' '''' ''1.0'') = ''https://ingest.loadimpact.com/v1''"
  using
    NewClient_host_resolution
      [of "\<lambda>k. if k = ''K6CLOUD_HOST'' then ''https://example.test'' else ''''"
          "''tok''" "''''" "''1.0''"]
    NewClient_host_resolution
      [of "\<lambda>k. if k = ''K6CLOUD_HOST'' then ''https://example.test'' else ''''"
          "''tok''" "''https://other.test''" "''1.0''"]
    NewClient_host_resolution [of "\<lambda>k. ''''" "''tok''" "''https://other.test''" "''1.0''"]
    NewClient_host_resolution [of "\<lambda>k. ''''" "''tok''" "''''" "''1.0''"]
  by simp

subsection \<open>Requests\<close>

text \<open>
  C6. In every call of \<open>Do\<close> the request is handed to the transport after the three
  headers have been set: \<open>Content-Type\<close> is \<open>application/json\<close>, \<open>Authorization\<close> is
  \<open>Token\<close> followed by the client's token, and \<open>User-Agent\<close> is \<open>k6cloud/\<close> followed
  by the client's version, each as the only value under its key whatever the caller had
  put there. No other header and no other part of the request is changed. The round
  trip is the first event and the only one of its kind, and the call depends on the
  transport only through its answer to that request.
\<close>

theorem mandated_headers:
  "Header (setHeaders c req) ''Content-Type'' = Some [''application/json''] \<and>
   Header (setHeaders c req) ''Authorization'' = Some [''Token '' @ token c] \<and>
   Header (setHeaders c req) ''User-Agent'' = Some [''k6cloud/'' @ version c] \<and>
   (\<forall>k. k \<notin> {''Content-Type'', ''Authorization'', ''User-Agent''} \<longrightarrow>
        Header (setHeaders c req) k = Header req k) \<and>
   Method (setHeaders c req) = Method req \<and> URL (setHeaders c req) = URL req \<and>
   Request.Body (setHeaders c req) = Request.Body req \<and>
   (\<exists>evs. trace (Do w unmarshal c req v) = RoundTrip (setHeaders c req) # evs \<and>
          (\<forall>r. RoundTrip r \<notin> set evs)) \<and>
   request (Do w unmarshal c req v) = setHeaders c req \<and>
   (\<forall>w'. client_Do w' (client c) (setHeaders c req) = client_Do w (client c) (setHeaders c req) \<and>
         readValue w' = readValue w \<and> Close w' = Close w \<longrightarrow>
         Do w' unmarshal c req v = Do w unmarshal c req v)"
proof (intro conjI)
  show "Header (setHeaders c req) ''Content-Type'' = Some [''application/json'']"
    by (simp add: setHeaders_Header)
  show "Header (setHeaders c req) ''Authorization'' = Some [''Token '' @ token c]"
    by (simp add: setHeaders_Header)
  show "Header (setHeaders c req) ''User-Agent'' = Some [''k6cloud/'' @ version c]"
    by (simp add: setHeaders_Header)
  show "\<forall>k. k \<notin> {''Content-Type'', ''Authorization'', ''User-Agent''} \<longrightarrow>
        Header (setHeaders c req) k = Header req k"
    by (simp add: setHeaders_Header)
  show "Method (setHeaders c req) = Method req" "URL (setHeaders c req) = URL req"
    "Request.Body (setHeaders c req) = Request.Body req"
    using setHeaders_frame [of c req] by simp_all
  show "\<exists>evs. trace (Do w unmarshal c req v) = RoundTrip (setHeaders c req) # evs \<and>
          (\<forall>r. RoundTrip r \<notin> set evs)"
    by (rule Do_trace_tail)
  show "request (Do w unmarshal c req v) = setHeaders c req"
    by (rule Do_request)
  show "\<forall>w'. client_Do w' (client c) (setHeaders c req) =
           client_Do w (client c) (setHeaders c req) \<and>
         readValue w' = readValue w \<and> Close w' = Close w \<longrightarrow>
         Do w' unmarshal c req v = Do w unmarshal c req v"
  proof (intro allI impI)
    fix w' :: world
    assume h: "client_Do w' (client c) (setHeaders c req) =
           client_Do w (client c) (setHeaders c req) \<and>
         readValue w' = readValue w \<and> Close w' = Close w"
    show "Do w' unmarshal c req v = Do w unmarshal c req v"
      using h by (intro Do_cong_transport) simp_all
  qed
qed

theorem mandated_headers_witness:
  "Header (setHeaders sample_client sample_request) ''Content-Type'' = Some [''application/json''] \<and>
   Header (setHeaders sample_client sample_request) ''Authorization'' = Some [''Token secret''] \<and>
   Header (setHeaders sample_client sample_request) ''User-Agent'' = Some [''k6cloud/0.17.0''] \<and>
   Header (setHeaders sample_client sample_request) ''Accept'' = Some [''*/*''] \<and>
   request (Do (sample_world (Inl (OtherError ''connection refused'')) (Inl EOF) None)
     unmarshal_string sample_client sample_request None) =
     setHeaders sample_client sample_request \<and>
   returned (Do
     \<lparr>client_Do = (\<lambda>hc req.
        if Header req ''Authorization'' = Some [''Token secret''] \<and>
           Header req ''Content-Type'' = Some [''application/json'']
        then Inr \<lparr>StatusCode = 204, Body = 1\<rparr> else Inl (OtherError ''rejected'')),
      readValue = (\<lambda>b. Inl EOF), Close = (\<lambda>b. None)\<rparr>
     unmarshal_string sample_client sample_request None) = None"
proof -
  note t = mandated_headers [where c = sample_client and req = sample_request
      and w = "sample_world (Inl (OtherError ''connection refused'')) (Inl EOF) None"
      and unmarshal = unmarshal_string and v = None]
  have 1: "Header (setHeaders sample_client sample_request) ''Content-Type'' =
      Some [''application/json'']"
    using t by (elim conjE)
  have 2: "Header (setHeaders sample_client sample_request) ''Authorization'' =
      Some [''Token secret'']"
    using t [THEN conjunct2, THEN conjunct1] by (simp add: sample_client_def NewClient_def)
  have 3: "Header (setHeaders sample_client sample_request) ''User-Agent'' =
      Some [''k6cloud/0.17.0'']"
    using t [THEN conjunct2, THEN conjunct2, THEN conjunct1]
    by (simp add: sample_client_def NewClient_def)
  have 4: "Header (setHeaders sample_client sample_request) ''Accept'' = Some [''*/*'']"
    using t [THEN conjunct2, THEN conjunct2, THEN conjunct2, THEN conjunct1, rule_format,
        of "''Accept''"]
    by (simp add: sample_request_def)
  have 5: "request (Do (sample_world (Inl (OtherError ''connection refused'')) (Inl EOF) None)
     unmarshal_string sample_client sample_request None) =
     setHeaders sample_client sample_request"
    using t by (elim conjE)
  have 6: "returned (Do
     \<lparr>client_Do = (\<lambda>hc req.
        if Header req ''Authorization'' = Some [''Token secret''] \<and>
           Header req ''Content-Type'' = Some [''application/json'']
        then Inr \<lparr>StatusCode = 204, Body = 1\<rparr> else Inl (OtherError ''rejected'')),
      readValue = (\<lambda>b. Inl EOF), Close = (\<lambda>b. None)\<rparr>
     unmarshal_string sample_client sample_request None) = None"
    using 1 2 by (simp add: Do_returned checkResponse_success)
  show ?thesis
    using 1 2 3 4 5 6 by (intro conjI)
qed

text \<open>
  C7. \<open>NewRequest\<close>, for every method, URL and data: with nil data a request that is
  built has a nil body (and one is built whenever net/http accepts the method and the
  URL); with data that marshals to the bytes \<open>b\<close> the request built has the body \<open>b\<close>,
  and a request built from non-nil data always has the marshalled bytes as its body;
  with data that does not marshal, the marshalling error is returned and no request.
\<close>

theorem NewRequest_body:
  "(\<forall>req. NewRequest validate json_Marshal c meth url None = Inr req \<longrightarrow>
          Request.Body req = None) \<and>
   (validate meth url = None \<longrightarrow>
      (\<exists>req. NewRequest validate json_Marshal c meth url None = Inr req \<and>
             Request.Body req = None \<and> URL req = url)) \<and>
   (\<forall>d b. json_Marshal d = Inr b \<and> validate meth url = None \<longrightarrow>
      (\<exists>req. NewRequest validate json_Marshal c meth url (Some d) = Inr req \<and>
             Request.Body req = Some b \<and> URL req = url)) \<and>
   (\<forall>d req. NewRequest validate json_Marshal c meth url (Some d) = Inr req \<longrightarrow>
      (\<exists>b. json_Marshal d = Inr b \<and> Request.Body req = Some b)) \<and>
   (\<forall>d err. json_Marshal d = Inl err \<longrightarrow>
      NewRequest validate json_Marshal c meth url (Some d) = Inl err)"
  by (auto simp: NewRequest_def http_NewRequest_def split: option.splits sum.splits)

theorem NewRequest_body_witness:
  "(\<exists>req. NewRequest (\<lambda>m u. None) (\<lambda>d::nat. Inr ''42'') sample_client ''GET'' ''http://h/v1'' None =
            Inr req \<and> Request.Body req = None) \<and>
   (\<exists>req. NewRequest (\<lambda>m u. None) (\<lambda>d::nat. Inr ''42'') sample_client ''POST'' ''http://h/v1''
            (Some 42) = Inr req \<and> Request.Body req = Some ''42'') \<and>
   NewRequest (\<lambda>m u. None) (\<lambda>d::nat. Inl (OtherError ''json: unsupported type''))
     sample_client ''POST'' ''http://h/v1'' (Some 42) = Inl (OtherError ''json: unsupported type'')"
proof -
  note t1 = NewRequest_body [where validate = "\<lambda>m u. None" and json_Marshal = "\<lambda>d::nat. Inr ''42''"
      and c = sample_client and url = "''http://h/v1''"]
  note t2 = NewRequest_body [where validate = "\<lambda>m u. None"
      and json_Marshal = "\<lambda>d::nat. Inl (OtherError ''json: unsupported type'')"
      and c = sample_client and meth = "''POST''" and url = "''http://h/v1''"]
  have 1: "\<exists>req. NewRequest (\<lambda>m u. None) (\<lambda>d::nat. Inr ''42'') sample_client ''GET'' ''http://h/v1''
      None = Inr req \<and> Request.Body req = None"
    using t1 [where meth = "''GET''", THEN conjunct2, THEN conjunct1] by auto
  have 2: "\<exists>req. NewRequest (\<lambda>m u. None) (\<lambda>d::nat. Inr ''42'') sample_client ''POST'' ''http://h/v1''
      (Some 42) = Inr req \<and> Request.Body req = Some ''42''"
    using t1 [where meth = "''POST''", THEN conjunct2, THEN conjunct2, THEN conjunct1, rule_format,
        where d = "42::nat" and b = "''42''"] by auto
  have 3: "NewRequest (\<lambda>m u. None) (\<lambda>d::nat. Inl (OtherError ''json: unsupported type''))
     sample_client ''POST'' ''http://h/v1'' (Some 42) = Inl (OtherError ''json: unsupported type'')"
    using t2 [THEN conjunct2, THEN conjunct2, THEN conjunct2, THEN conjunct2, rule_format,
        where d = "42::nat" and err = "OtherError ''json: unsupported type''"] by simp
  show ?thesis
    using 1 2 3 by (intro conjI)
qed

subsection \<open>Decoding, release of the body, and the target\<close>

text \<open>
  C8. For a response with a status from 200 to 299 and a non-nil target: when the body
  ends before any value (\<open>io.EOF\<close> from the decoder) the call returns nil and the target
  is as it was; any other error of reading the value (a body that is not JSON, or ends
  inside a value) is returned as it is, the target untouched; any error of the decode
  other than \<open>io.EOF\<close> is returned as it is. The call returns nil exactly when the
  decode gave no error or gave \<open>io.EOF\<close>.
\<close>

theorem success_decoding:
  assumes "200 \<le> StatusCode r" and "StatusCode r \<le> 299"
    and "client_Do w (client c) (setHeaders c req) = Inr r"
  shows
    "(readValue w (Body r) = Inl EOF \<longrightarrow>
        returned (Do w unmarshal c req (Some t)) = None \<and>
        target (Do w unmarshal c req (Some t)) = Some t) \<and>
     (\<forall>err. readValue w (Body r) = Inl err \<and> err \<noteq> EOF \<longrightarrow>
        returned (Do w unmarshal c req (Some t)) = Some err \<and>
        target (Do w unmarshal c req (Some t)) = Some t) \<and>
     (\<forall>err. fst (Decode w unmarshal (Body r) t) = Some err \<and> err \<noteq> EOF \<longrightarrow>
        returned (Do w unmarshal c req (Some t)) = Some err) \<and>
     (returned (Do w unmarshal c req (Some t)) = None \<longleftrightarrow>
        fst (Decode w unmarshal (Body r) t) = None \<or>
        fst (Decode w unmarshal (Body r) t) = Some EOF)"
proof -
  have cr: "checkResponse w r = (None, [])"
    using assms(1,2) by (rule checkResponse_success)
  show ?thesis
    by (auto simp: Do_success_decode [OF assms(3) cr] Decode_def)
qed

theorem success_decoding_witness:
  "returned (Do (sample_world (Inr \<lparr>StatusCode = 200, Body = 1\<rparr>) (Inl EOF) None)
     unmarshal_string sample_client sample_request (Some ''before'')) = None \<and>
   target (Do (sample_world (Inr \<lparr>StatusCode = 200, Body = 1\<rparr>) (Inl EOF) None)
     unmarshal_string sample_client sample_request (Some ''before'')) = Some ''before'' \<and>
   returned (Do (sample_world (Inr \<lparr>StatusCode = 200, Body = 1\<rparr>)
       (Inl (SyntaxError ''invalid character'')) None)
     unmarshal_string sample_client sample_request (Some ''before'')) =
     Some (SyntaxError ''invalid character'') \<and>
   returned (Do (sample_world (Inr \<lparr>StatusCode = 200, Body = 1\<rparr>) (Inr (JNumber ''1'')) None)
     unmarshal_string sample_client sample_request (Some ''before'')) =
     Some (UnmarshalTypeError ''number'')"
proof -
  define r :: Response where "r = \<lparr>StatusCode = 200, Body = 1\<rparr>"
  have ok: "200 \<le> StatusCode r" "StatusCode r \<le> 299"
    by (simp_all add: r_def)
  define w1 where "w1 = sample_world (Inr r) (Inl EOF) None"
  define w2 where "w2 = sample_world (Inr r) (Inl (SyntaxError ''invalid character'')) None"
  define w3 where "w3 = sample_world (Inr r) (Inr (JNumber ''1'')) None"
  have a1: "client_Do w1 (client sample_client) (setHeaders sample_client sample_request) = Inr r"
    by (simp add: w1_def sample_world_def)
  have a2: "client_Do w2 (client sample_client) (setHeaders sample_client sample_request) = Inr r"
    by (simp add: w2_def sample_world_def)
  have a3: "client_Do w3 (client sample_client) (setHeaders sample_client sample_request) = Inr r"
    by (simp add: w3_def sample_world_def)
  note t1 = success_decoding [OF ok a1, where unmarshal = unmarshal_string and t = "''before''"]
  note t2 = success_decoding [OF ok a2, where unmarshal = unmarshal_string and t = "''before''"]
  note t3 = success_decoding [OF ok a3, where unmarshal = unmarshal_string and t = "''before''"]
  have 1: "returned (Do w1 unmarshal_string sample_client sample_request (Some ''before'')) = None \<and>
      target (Do w1 unmarshal_string sample_client sample_request (Some ''before'')) =
        Some ''before''"
    using t1 [THEN conjunct1] by (simp add: w1_def sample_world_def r_def)
  have 2: "returned (Do w2 unmarshal_string sample_client sample_request (Some ''before'')) =
      Some (SyntaxError ''invalid character'')"
    using t2 [THEN conjunct2, THEN conjunct1, rule_format, of "SyntaxError ''invalid character''"]
    by (simp add: w2_def sample_world_def r_def)
  have 3: "returned (Do w3 unmarshal_string sample_client sample_request (Some ''before'')) =
      Some (UnmarshalTypeError ''number'')"
    using t3 [THEN conjunct2, THEN conjunct2, THEN conjunct1, rule_format,
        of "UnmarshalTypeError ''number''"]
    by (simp add: w3_def sample_world_def r_def Decode_def unmarshal_string_def saveError_def)
  show ?thesis
    using 1 2 3 unfolding w1_def w2_def w3_def r_def by blast
qed

text \<open>
  C9. For every call of \<open>Do\<close> that receives a response: the events end with the
  deferred function, and before it no body is closed and nothing is logged; the body of
  the response is closed exactly once and no other body is closed. When the close
  succeeds nothing is logged; when it fails with \<open>err\<close>, the close is followed by
  exactly one log entry of \<open>err\<close>. The error returned and the target do not depend on
  what \<open>Close\<close> returns. This holds for every world, status and target, hence on
  every path of the call.
\<close>

theorem body_released_once:
  assumes "client_Do w (client c) (setHeaders c req) = Inr r"
  shows
    "(\<exists>pre. trace (Do w unmarshal c req v) = pre @ deferred w r \<and>
            (\<forall>b. CloseBody b \<notin> set pre) \<and> (\<forall>err. LogError err \<notin> set pre)) \<and>
     count_list (trace (Do w unmarshal c req v)) (CloseBody (Body r)) = 1 \<and>
     (\<forall>b. CloseBody b \<in> set (trace (Do w unmarshal c req v)) \<longrightarrow> b = Body r) \<and>
     (Close w (Body r) = None \<longrightarrow>
        last (trace (Do w unmarshal c req v)) = CloseBody (Body r) \<and>
        (\<forall>err. LogError err \<notin> set (trace (Do w unmarshal c req v)))) \<and>
     (\<forall>err. Close w (Body r) = Some err \<longrightarrow>
        (\<exists>pre. trace (Do w unmarshal c req v) = pre @ [CloseBody (Body r), LogError err]) \<and>
        count_list (trace (Do w unmarshal c req v)) (LogError err) = 1) \<and>
     (\<forall>w'. client_Do w' = client_Do w \<and> readValue w' = readValue w \<longrightarrow>
        returned (Do w' unmarshal c req v) = returned (Do w unmarshal c req v) \<and>
        target (Do w' unmarshal c req v) = target (Do w unmarshal c req v))"
proof -
  define pre where
    "pre = RoundTrip (setHeaders c req) # snd (checkResponse w r) @
      (if fst (checkResponse w r) = None \<and> v \<noteq> None then [DecodeTarget (Body r)] else [])"
  have tr: "trace (Do w unmarshal c req v) = pre @ deferred w r"
    unfolding pre_def using assms by (rule Do_trace_response)
  have ev: "set (snd (checkResponse w r)) \<subseteq> {DecodeErrorStruct (Body r)}"
    by (rule checkResponse_events)
  have pre_close: "\<forall>b. CloseBody b \<notin> set pre"
    using ev by (auto simp: pre_def)
  have pre_log: "\<forall>err. LogError err \<notin> set pre"
    using ev by (auto simp: pre_def)
  have cnt_close: "count_list pre (CloseBody (Body r)) = 0"
    using pre_close by (simp add: count_list_0_iff)
  have cnt_log: "\<And>err. count_list pre (LogError err) = 0"
    using pre_log by (simp add: count_list_0_iff)
  have 1: "\<exists>pre. trace (Do w unmarshal c req v) = pre @ deferred w r \<and>
            (\<forall>b. CloseBody b \<notin> set pre) \<and> (\<forall>err. LogError err \<notin> set pre)"
    using tr pre_close pre_log by blast
  have 2: "count_list (trace (Do w unmarshal c req v)) (CloseBody (Body r)) = 1"
    using cnt_close by (simp add: tr deferred_def split: option.splits)
  have 3: "\<forall>b. CloseBody b \<in> set (trace (Do w unmarshal c req v)) \<longrightarrow> b = Body r"
    using pre_close by (auto simp: tr deferred_def split: option.splits)
  have 4: "Close w (Body r) = None \<longrightarrow>
        last (trace (Do w unmarshal c req v)) = CloseBody (Body r) \<and>
        (\<forall>err. LogError err \<notin> set (trace (Do w unmarshal c req v)))"
    using pre_log by (simp add: tr deferred_def)
  have 5: "\<forall>err. Close w (Body r) = Some err \<longrightarrow>
        (\<exists>pre. trace (Do w unmarshal c req v) = pre @ [CloseBody (Body r), LogError err]) \<and>
        count_list (trace (Do w unmarshal c req v)) (LogError err) = 1"
    using cnt_log by (simp add: tr deferred_def)
  have 6: "\<forall>w'. client_Do w' = client_Do w \<and> readValue w' = readValue w \<longrightarrow>
        returned (Do w' unmarshal c req v) = returned (Do w unmarshal c req v) \<and>
        target (Do w' unmarshal c req v) = target (Do w unmarshal c req v)"
    using Do_result_without_Close by blast
  show ?thesis
    using 1 2 3 4 5 6 by (intro conjI)
qed

theorem body_released_once_witness:
  "trace (Do (sample_world (Inr \<lparr>StatusCode = 200, Body = 1\<rparr>) (Inr (JString ''ok''))
       (Some (OtherError ''close failed'')))
     unmarshal_string sample_client sample_request (Some ''before'')) =
     [RoundTrip (setHeaders sample_client sample_request), DecodeTarget 1, CloseBody 1,
      LogError (OtherError ''close failed'')] \<and>
   count_list (trace (Do (sample_world (Inr \<lparr>StatusCode = 200, Body = 1\<rparr>) (Inr (JString ''ok''))
       (Some (OtherError ''close failed'')))
     unmarshal_string sample_client sample_request (Some ''before''))) (CloseBody 1) = 1 \<and>
   returned (Do (sample_world (Inr \<lparr>StatusCode = 200, Body = 1\<rparr>) (Inr (JString ''ok''))
       (Some (OtherError ''close failed'')))
     unmarshal_string sample_client sample_request (Some ''before'')) =
   returned (Do (sample_world (Inr \<lparr>StatusCode = 200, Body = 1\<rparr>) (Inr (JString ''ok'')) None)
     unmarshal_string sample_client sample_request (Some ''before''))"
proof -
  define r :: Response where "r = \<lparr>StatusCode = 200, Body = 1\<rparr>"
  define w1 where
    "w1 = sample_world (Inr r) (Inr (JString ''ok'')) (Some (OtherError ''close failed''))"
  define w2 where "w2 = sample_world (Inr r) (Inr (JString ''ok'')) None"
  have a2: "client_Do w2 (client sample_client) (setHeaders sample_client sample_request) = Inr r"
    by (simp add: w2_def sample_world_def)
  have a1: "client_Do w1 (client sample_client) (setHeaders sample_client sample_request) = Inr r"
    by (simp add: w1_def sample_world_def)
  note t1 = body_released_once [OF a1, where unmarshal = unmarshal_string and v = "Some ''before''"]
  note t2 = body_released_once [OF a2, where unmarshal = unmarshal_string and v = "Some ''before''"]
  have 1: "count_list (trace (Do w1 unmarshal_string sample_client sample_request (Some ''before'')))
      (CloseBody 1) = 1"
    using t1 [THEN conjunct2, THEN conjunct1] by (simp add: r_def)
  have 2: "returned (Do w1 unmarshal_string sample_client sample_request (Some ''before'')) =
      returned (Do w2 unmarshal_string sample_client sample_request (Some ''before''))"
    using t2 [THEN conjunct2, THEN conjunct2, THEN conjunct2, THEN conjunct2, THEN conjunct2,
        rule_format, of w1]
    by (simp add: w1_def w2_def sample_world_def)
  have 3: "trace (Do w1 unmarshal_string sample_client sample_request (Some ''before'')) =
     [RoundTrip (setHeaders sample_client sample_request), DecodeTarget 1, CloseBody 1,
      LogError (OtherError ''close failed'')]"
    using a1 by (simp add: Do_trace checkResponse_success r_def deferred_def w1_def sample_world_def)
  show ?thesis
    using 1 2 3 unfolding w1_def w2_def r_def by blast
qed

text \<open>
  C10. When the transport fails, or the response is classified as an error (which is
  then one of \<open>ErrNotAuthenticated\<close>, \<open>ErrNotAuthorized\<close>, an \<open>ErrorResponse\<close> or a
  wrapped non-standard error), \<open>Do\<close> returns that error, the target is exactly as the
  caller passed it, and no decode into the target is among the events. A decode into the
  target happens only on the body of a response that \<open>checkResponse\<close> has accepted.
\<close>

theorem error_paths_leave_target:
  "(\<forall>err. client_Do w (client c) (setHeaders c req) = Inl err \<longrightarrow>
      returned (Do w unmarshal c req v) = Some err \<and>
      target (Do w unmarshal c req v) = v \<and>
      (\<forall>b. DecodeTarget b \<notin> set (trace (Do w unmarshal c req v)))) \<and>
   (\<forall>r err. client_Do w (client c) (setHeaders c req) = Inr r \<and>
      fst (checkResponse w r) = Some err \<longrightarrow>
      returned (Do w unmarshal c req v) = Some err \<and>
      target (Do w unmarshal c req v) = v \<and>
      (\<forall>b. DecodeTarget b \<notin> set (trace (Do w unmarshal c req v))) \<and>
      (err = ErrNotAuthenticated \<or> err = ErrNotAuthorized \<or> (\<exists>e. err = ErrorResponseError e) \<or>
       (\<exists>e. err = Wrapped e ''Non-standard API error response''))) \<and>
   (\<forall>b. DecodeTarget b \<in> set (trace (Do w unmarshal c req v)) \<longrightarrow>
      (\<exists>r. client_Do w (client c) (setHeaders c req) = Inr r \<and>
           checkResponse w r = (None, []) \<and> b = Body r))"
proof (intro conjI allI impI)
  fix err
  assume "client_Do w (client c) (setHeaders c req) = Inl err"
  then show "returned (Do w unmarshal c req v) = Some err"
    "target (Do w unmarshal c req v) = v"
    "\<And>b. DecodeTarget b \<notin> set (trace (Do w unmarshal c req v))"
    by (simp_all add: Do_transport_error)
next
  fix r err
  assume h: "client_Do w (client c) (setHeaders c req) = Inr r \<and>
      fst (checkResponse w r) = Some err"
  have ev: "\<And>b. DecodeTarget b \<notin> set (snd (checkResponse w r))"
    using checkResponse_events [of w r] by auto
  have df: "\<And>b. DecodeTarget b \<notin> set (deferred w r)"
    using deferred_events [of w r] by auto
  show "returned (Do w unmarshal c req v) = Some err"
    using h by (simp add: Do_returned)
  show "target (Do w unmarshal c req v) = v"
    using h by (simp add: Do_target)
  show "\<And>b. DecodeTarget b \<notin> set (trace (Do w unmarshal c req v))"
    using h ev df by (simp add: Do_trace)
  show "err = ErrNotAuthenticated \<or> err = ErrNotAuthorized \<or> (\<exists>e. err = ErrorResponseError e) \<or>
       (\<exists>e. err = Wrapped e ''Non-standard API error response'')"
    using h checkResponse_errors by blast
next
  fix b
  assume b: "DecodeTarget b \<in> set (trace (Do w unmarshal c req v))"
  show "\<exists>r. client_Do w (client c) (setHeaders c req) = Inr r \<and>
           checkResponse w r = (None, []) \<and> b = Body r"
  proof (cases "client_Do w (client c) (setHeaders c req)")
    case (Inl err)
    then show ?thesis using b by (simp add: Do_trace)
  next
    case (Inr r)
    have ev: "DecodeTarget b \<notin> set (snd (checkResponse w r))"
      using checkResponse_events [of w r] by auto
    have df: "DecodeTarget b \<notin> set (deferred w r)"
      using deferred_events [of w r] by auto
    have "fst (checkResponse w r) = None \<and> b = Body r"
      using b Inr ev df by (simp add: Do_trace split: if_splits)
    then show ?thesis
      using Inr checkResponse_None [of w r] by simp
  qed
qed

theorem error_paths_leave_target_witness:
  "target (Do (sample_world (Inl (OtherError ''connection refused'')) (Inl EOF) None)
     unmarshal_string sample_client sample_request (Some ''before'')) = Some ''before'' \<and>
   target (Do (sample_world (Inr \<lparr>StatusCode = 401, Body = 1\<rparr>) (Inr (JString ''after'')) None)
     unmarshal_string sample_client sample_request (Some ''before'')) = Some ''before'' \<and>
   target (Do (sample_world (Inr \<lparr>StatusCode = 500, Body = 1\<rparr>) (Inr (JString ''after'')) None)
     unmarshal_string sample_client sample_request (Some ''before'')) = Some ''before'' \<and>
   target (Do (sample_world (Inr \<lparr>StatusCode = 500, Body = 1\<rparr>) (Inr JNull) None)
     unmarshal_string sample_client sample_request (Some ''before'')) = Some ''before''"
proof -
  define w1 where "w1 = sample_world (Inl (OtherError ''connection refused'')) (Inl EOF) None"
  define w2 where
    "w2 = sample_world (Inr \<lparr>StatusCode = 401, Body = 1\<rparr>) (Inr (JString ''after'')) None"
  define w3 where
    "w3 = sample_world (Inr \<lparr>StatusCode = 500, Body = 1\<rparr>) (Inr (JString ''after'')) None"
  define w4 where "w4 = sample_world (Inr \<lparr>StatusCode = 500, Body = 1\<rparr>) (Inr JNull) None"
  note t1 = error_paths_leave_target [where w = w1 and c = sample_client and req = sample_request
      and unmarshal = unmarshal_string and v = "Some ''before''"]
  note t2 = error_paths_leave_target [where w = w2 and c = sample_client and req = sample_request
      and unmarshal = unmarshal_string and v = "Some ''before''"]
  note t3 = error_paths_leave_target [where w = w3 and c = sample_client and req = sample_request
      and unmarshal = unmarshal_string and v = "Some ''before''"]
  note t4 = error_paths_leave_target [where w = w4 and c = sample_client and req = sample_request
      and unmarshal = unmarshal_string and v = "Some ''before''"]
  have 1: "target (Do w1 unmarshal_string sample_client sample_request (Some ''before'')) =
      Some ''before''"
    using t1 [THEN conjunct1, rule_format, of "OtherError ''connection refused''"]
    by (simp add: w1_def sample_world_def)
  have 2: "target (Do w2 unmarshal_string sample_client sample_request (Some ''before'')) =
      Some ''before''"
    using t2 [THEN conjunct2, THEN conjunct1, rule_format, of "\<lparr>StatusCode = 401, Body = 1\<rparr>"
        ErrNotAuthenticated]
    by (simp add: w2_def sample_world_def checkResponse_401)
  have 3: "target (Do w3 unmarshal_string sample_client sample_request (Some ''before'')) =
      Some ''before''"
    using t3 [THEN conjunct2, THEN conjunct1, rule_format, of "\<lparr>StatusCode = 500, Body = 1\<rparr>"
        "Wrapped (UnmarshalTypeError ''string'') ''Non-standard API error response''"]
    by (simp add: w3_def sample_world_def checkResponse_def Decode_def unmarshal_errorStruct_def
        saveError_def errors_Wrap_def)
  have 4: "target (Do w4 unmarshal_string sample_client sample_request (Some ''before'')) =
      Some ''before''"
    using t4 [THEN conjunct2, THEN conjunct1, rule_format, of "\<lparr>StatusCode = 500, Body = 1\<rparr>"
        "ErrorResponseError \<lparr>Response = \<lparr>StatusCode = 500, Body = 1\<rparr>, Message = '''', Code = 0\<rparr>"]
    by (simp add: w4_def sample_world_def checkResponse_def Decode_def unmarshal_errorStruct_def)
  show ?thesis
    using 1 2 3 4 unfolding w1_def w2_def w3_def w4_def by blast
qed

end
